theory Spec2Isabelle
  imports Complex_Main "HOL-Library.Sublist"
begin

section \<open>Python strings\<close>

text \<open>
  A Python \<open>str\<close> is modelled as a \<open>string\<close> whose characters are the code points
  below 256. Within that range \<open>str.isspace\<close> holds for the code points 9 to 13, 28 to 32,
  133 and 160, the decimal digits are \<open>0\<close> to \<open>9\<close>, and \<open>str.lower\<close> maps \<open>A\<close> to
  \<open>Z\<close> and 192 to 222 (without 215) to the code point 32 above.
\<close>

definition isspace :: "char \<Rightarrow> bool" where
  "isspace c = (let n = (of_char c :: nat) in
     (9 \<le> n \<and> n \<le> 13) \<or> (28 \<le> n \<and> n \<le> 32) \<or> n = 133 \<or> n = 160)"

definition strip :: "string \<Rightarrow> string" where
  "strip s = rev (dropWhile isspace (rev (dropWhile isspace s)))"

definition lower_char :: "char \<Rightarrow> char" where
  "lower_char c = (let n = (of_char c :: nat) in
     if (65 \<le> n \<and> n \<le> 90) \<or> (192 \<le> n \<and> n \<le> 222 \<and> n \<noteq> 215)
     then char_of (n + 32) else c)"

definition lower :: "string \<Rightarrow> string" where
  "lower s = map lower_char s"

definition endswith :: "string \<Rightarrow> string \<Rightarrow> bool" where
  "endswith s suf = suffix suf s"

definition startswith :: "string \<Rightarrow> string \<Rightarrow> bool" where
  "startswith s pre = prefix pre s"

text \<open>\<open>needle in haystack\<close> on strings: the needle occurs as a contiguous block.\<close>

fun contains :: "string \<Rightarrow> string \<Rightarrow> bool" where
  "contains needle [] = (needle = [])"
| "contains needle (c # cs) = (prefix needle (c # cs) \<or> contains needle cs)"

text \<open>\<open>s.split(sep)\<close> for a separator of one character: never an empty list.\<close>

fun split_on :: "char \<Rightarrow> string \<Rightarrow> string list" where
  "split_on sep [] = [[]]"
| "split_on sep (c # cs) =
     (if c = sep then [] # split_on sep cs
      else (case split_on sep cs of
              [] \<Rightarrow> [[c]]
            | p # ps \<Rightarrow> (c # p) # ps))"

subsection \<open>\<open>int(s)\<close> in base 10\<close>

text \<open>
  \<open>int\<close> skips blanks at both ends, reads one optional sign and then decimal digits,
  where a single underscore may stand between two digits. Anything else raises
  ValueError, modelled as \<open>None\<close>. The blanks of \<open>int\<close> are fewer than those of
  \<open>str.strip\<close>: the code points 28 to 31 are none. A text of more than 4300 digits
  raises ValueError too (the default limit of the interpreter; signs, blanks and
  underscores do not count).
\<close>

definition int_isspace :: "char \<Rightarrow> bool" where
  "int_isspace c = (let n = (of_char c :: nat) in
     (9 \<le> n \<and> n \<le> 13) \<or> n = 32 \<or> n = 133 \<or> n = 160)"

definition int_strip :: "string \<Rightarrow> string" where
  "int_strip s = rev (dropWhile int_isspace (rev (dropWhile int_isspace s)))"

definition isdigit :: "char \<Rightarrow> bool" where
  "isdigit c = (let n = (of_char c :: nat) in 48 \<le> n \<and> n \<le> 57)"

definition digit_val :: "char \<Rightarrow> nat" where
  "digit_val c = of_char c - 48"

fun parse_digits :: "nat \<Rightarrow> string \<Rightarrow> nat option" where
  "parse_digits acc [] = Some acc"
| "parse_digits acc [c] = (if isdigit c then Some (10 * acc + digit_val c) else None)"
| "parse_digits acc (c # d # ds) =
     (if isdigit c then parse_digits (10 * acc + digit_val c) (d # ds)
      else if c = CHR ''_'' \<and> isdigit d then parse_digits (10 * acc + digit_val d) ds
      else None)"

definition parse_unsigned :: "string \<Rightarrow> nat option" where
  "parse_unsigned s = (case s of
       [] \<Rightarrow> None
     | c # cs \<Rightarrow> if isdigit c then parse_digits (digit_val c) cs else None)"

fun count_digits :: "string \<Rightarrow> int" where
  "count_digits [] = 0"
| "count_digits (c # cs) = (if isdigit c then 1 + count_digits cs else count_digits cs)"

definition py_int :: "string \<Rightarrow> int option" where
  "py_int s = (case int_strip s of
       [] \<Rightarrow> None
     | c # cs \<Rightarrow>
         if count_digits (c # cs) > 4300 then None
         else if c = CHR ''-'' then map_option (\<lambda>n. - int n) (parse_unsigned cs)
         else if c = CHR ''+'' then map_option int (parse_unsigned cs)
         else map_option int (parse_unsigned (c # cs)))"

section \<open>Python floats\<close>

text \<open>
  A Python float is an IEEE double. The model keeps it as the real number it stands
  for: \<open>fl x\<close> is the double nearest to \<open>x\<close>, a tie going to the even mantissa of 53
  bits, with the fixed step \<open>2^-1074\<close> below \<open>2^-1022\<close>. \<open>ilog2 n x\<close> is the
  exponent of \<open>x\<close>, found in at most \<open>n\<close> halvings or doublings. A value that rounds
  to \<open>2^1024\<close> or more has no double: \<open>overflows\<close> holds for it, where the division of
  two integers and the conversion of an integer raise OverflowError.
\<close>

definition pow2 :: "int \<Rightarrow> real" where
  "pow2 k = (if 0 \<le> k then 2 ^ nat k else 1 / 2 ^ nat (- k))"

fun ilog2 :: "nat \<Rightarrow> real \<Rightarrow> int" where
  "ilog2 0 x = 0"
| "ilog2 (Suc fuel) x =
     (if x \<ge> 2 then ilog2 fuel (x / 2) + 1
      else if x < 1 then ilog2 fuel (x * 2) - 1
      else 0)"

definition round_even :: "real \<Rightarrow> int" where
  "round_even m =
     (let f = \<lfloor>m\<rfloor>;
          d = m - of_int f
      in if d < 1 / 2 then f
         else if d > 1 / 2 then f + 1
         else if even f then f
         else f + 1)"

definition fl_pos :: "real \<Rightarrow> real" where
  "fl_pos x =
     (let e = max (ilog2 1100 x) (- 1022);
          q = pow2 (e - 52)
      in of_int (round_even (x / q)) * q)"

definition fl :: "real \<Rightarrow> real" where
  "fl x = (if x = 0 then 0 else if x < 0 then - fl_pos (- x) else fl_pos x)"

definition overflows :: "real \<Rightarrow> bool" where
  "overflows x = (\<bar>x\<bar> \<ge> pow2 1024 - pow2 970)"

text \<open>\<open>str(n)\<close> of an integer, as the f-strings of the source print it.\<close>

fun str_nat :: "nat \<Rightarrow> string" where
  "str_nat n = (if n < 10 then [char_of (48 + n)]
                else str_nat (n div 10) @ [char_of (48 + n mod 10)])"

definition str_int :: "int \<Rightarrow> string" where
  "str_int i = (if i < 0 then CHR ''-'' # str_nat (nat (- i)) else str_nat (nat i))"

subsection \<open>\<open>os.path\<close> on POSIX\<close>

definition basename :: "string \<Rightarrow> string" where
  "basename p = rev (takeWhile (\<lambda>c. c \<noteq> CHR ''/'') (rev p))"

definition path_join :: "string \<Rightarrow> string \<Rightarrow> string" where
  "path_join a b =
     (if startswith b ''/'' then b
      else if a = [] \<or> endswith a ''/'' then a @ b
      else a @ ''/'' @ b)"

text \<open>
  \<open>os.path.splitext\<close>: the extension starts at the last dot of the last component,
  unless only dots stand before it there.
\<close>

definition splitext :: "string \<Rightarrow> string \<times> string" where
  "splitext p =
     (let name = basename p;
          ext = rev (takeWhile (\<lambda>c. c \<noteq> CHR ''.'') (rev name));
          dotIndex = length p - length ext - 1
      in if CHR ''.'' \<in> set name
            \<and> list_ex (\<lambda>c. c \<noteq> CHR ''.'') (take (length name - length ext - 1) name)
         then (take dotIndex p, drop dotIndex p)
         else (p, []))"

section \<open>Configuration and data model\<close>

text \<open>The conversation states of the source; \<open>END\<close> is \<open>ConversationHandler.END\<close>.\<close>

datatype conv_state = UPLOAD_PDF | GET_URL | CONFIRM_DOWNLOAD | GET_PAGE_RANGE | SELECT_LOCAL_PDF | END

definition MAX_FILE_SIZE :: int where
  "MAX_FILE_SIZE = 50 * 1024 * 1024"

definition MAX_DOWNLOAD_SIZE :: int where
  "MAX_DOWNLOAD_SIZE = 2 * 1024 * 1024 * 1024"

definition PDF_STORAGE_DIR :: string where
  "PDF_STORAGE_DIR = ''stored_pdfs''"

definition WEB_SERVE_DIR :: string where
  "WEB_SERVE_DIR = ''web_serve''"

definition FILE_EXPIRATION_TIME :: real where
  "FILE_EXPIRATION_TIME = 86400"

text \<open>
  \<open>context.user_data\<close>: the five keys the handlers use; an absent key is \<open>None\<close>.
\<close>

record user_data =
  pdf_path :: "string option"
  num_pages :: "int option"
  download_url :: "string option"
  file_name :: "string option"
  pending_range :: "(int \<times> int) option"

definition empty_user_data :: user_data where
  "empty_user_data = \<lparr>pdf_path = None, num_pages = None, download_url = None,
     file_name = None, pending_range = None\<rparr>"

text \<open>
  A file is either a PDF that \<open>PdfReader\<close> opens, given by its pages in order, or other
  bytes, on which \<open>PdfReader\<close> raises. The file system maps a path to its file.
\<close>

datatype 'p content = Pdf "'p list" | NotPdf string

type_synonym 'p filesystem = "string \<rightharpoonup> 'p content"

text \<open>An entry of the global \<open>file_tokens\<close> dictionary. Times are seconds, as reals.\<close>

record token_data =
  file_path :: string
  filename :: string
  client_ip :: "string option"
  expire_time :: real

type_synonym registry = "string \<rightharpoonup> token_data"

section \<open>Token registry and file host\<close>

datatype 'c response = Abort404 | SendFile 'c string string bool

text \<open>
  \<open>download_file\<close>: the registry, the file system and \<open>time.time()\<close> are arguments.
  \<open>SendFile bytes download_name mimetype as_attachment\<close> is the answer of \<open>send_file\<close>.
\<close>

definition download_file :: "registry \<Rightarrow> (string \<rightharpoonup> 'c) \<Rightarrow> real \<Rightarrow> string \<Rightarrow> 'c response" where
  "download_file file_tokens files time_now token =
     (case file_tokens token of
        None \<Rightarrow> Abort404
      | Some d \<Rightarrow>
          if expire_time d < time_now then Abort404
          else (case files (file_path d) of
                  None \<Rightarrow> Abort404
                | Some bytes \<Rightarrow> SendFile bytes (filename d) ''application/pdf'' True))"

text \<open>
  \<open>generate_download_token\<close>: \<open>token\<close> is the value of \<open>str(uuid.uuid4())\<close> and
  \<open>time_now\<close> the value of \<open>time.time()\<close>. The timer it starts runs \<open>timer_pop\<close> after
  \<open>FILE_EXPIRATION_TIME\<close> seconds.
\<close>

definition generate_download_token ::
  "string \<Rightarrow> real \<Rightarrow> string \<Rightarrow> string \<Rightarrow> string option \<Rightarrow> registry \<Rightarrow> string \<times> registry" where
  "generate_download_token token time_now path original_filename ip file_tokens =
     (token, file_tokens(token \<mapsto>
        \<lparr>file_path = path, filename = original_filename, client_ip = ip,
         expire_time = time_now + FILE_EXPIRATION_TIME\<rparr>))"

definition timer_pop :: "string \<Rightarrow> registry \<Rightarrow> registry" where
  "timer_pop token file_tokens = file_tokens(token := None)"

section \<open>The messaging channel and the world a handler runs in\<close>

text \<open>
  The texts the handlers of the source send, one constructor per message, carrying the
  values the text is built from.
\<close>

datatype message =
    Validating
  | InvalidFormat
  | InvalidRange int
  | Creating
  | ProcessingPages int int
  | ErrorProcessingPage int
  | Finalizing
  | Sending
  | TooLarge int
  | NotConfigured
  | LinkReady string int int int
  | NextMenu string
  | ProcessingFailed
  | DownloadingUpload
  | UploadTooLarge
  | AnalyzingUpload
  | PdfReceived int
  | UploadFailed
  | Welcome
  | NoStoredPdfs
  | SelectStored "string list"
  | PleaseUpload
  | PleaseSendLink
  | FileNoLongerExists
  | AnalyzingSelected
  | SelectedPdf string int
  | ErrorSelected
  | IssueTryAgain
  | StartingDownload
  | Downloading int int
  | DownloadComplete
  | DownloadedPdf int
  | DownloadError
  | Cancelled
  | InvalidUrl
  | CheckingUrl
  | BadStatus int
  | NotAPdf
  | DownloadTooLarge int
  | ConfirmDownload string "int option"
  | UrlError
  | StoredFiles "string list"
  | ClearWarning
  | NothingToDelete
  | Deleted nat
  | ErrorOccurred

datatype log_line =
    CouldNotUpdateProgress
  | ErrorAddingPage int
  | GeneratedDownloadURL string
  | InvalidURLDetected string
  | ErrorCleaningUp
  | ErrorProcessingPDF
  | ErrorHandlingPDF
  | ErrorAnalyzingPDF
  | CouldNotUpdateProgressMessage
  | ErrorDownloadingFile
  | ErrorCheckingURL
  | ErrorDeleting string
  | ErrorCaused

text \<open>
  What a handler does to the outside, in order. \<open>edit_text_raised\<close> is a call of
  \<open>status_message.edit_text\<close> that raised, so that the text was not shown. Only the
  progress edits, which the source guards with a handler of their own (lines 595 to 600
  and 318 to 324), can raise here; every other call of the channel is taken to succeed.
\<close>

datatype 'p effect =
    reply_text message
  | edit_text message
  | edit_text_raised message
  | reply_document "'p content" string int int
  | query_answer
  | logger_info log_line
  | logger_warning log_line
  | logger_error log_line

record 'p world =
  session :: user_data
  files :: "'p filesystem"
  file_tokens :: registry
  effects :: "'p effect list"

definition emit :: "'p effect \<Rightarrow> 'p world \<Rightarrow> 'p world" where
  "emit e w = w\<lparr>effects := effects w @ [e]\<rparr>"

text \<open>
  What \<open>process_page_range\<close> takes from outside the program: the name
  \<open>tempfile.NamedTemporaryFile\<close> picks, the two values of \<open>uuid.uuid4()\<close>, the clock,
  the module constant \<open>PUBLIC_URL\<close> (computed at import time from the process
  environment), whether \<open>PdfWriter.add_page\<close> raises on the page of index \<open>page_num\<close>
  (a damaged page), whether the progress edit at loop index \<open>i\<close> raises, and the size in
  bytes \<open>os.path.getsize\<close> finds for a file.
\<close>

record 'p env =
  temp_name :: string
  uuid_file :: string
  uuid_token :: string
  clock :: real
  PUBLIC_URL :: string
  page_copy_raises :: "int \<Rightarrow> bool"
  progress_edit_raises :: "int \<Rightarrow> bool"
  getsize :: "'p content \<Rightarrow> int"

datatype exn = KeyError | ValueError

datatype 'a result = Returned 'a | Raised exn

section \<open>\<open>process_page_range\<close>\<close>

subsection \<open>Parsing and validating the range (lines 538 to 565)\<close>

text \<open>
  Lines 546 to 551: \<open>None\<close> is the ValueError of \<open>int\<close> or of unpacking a number of
  parts other than two.
\<close>

definition parse_page_range :: "string \<Rightarrow> (int \<times> int) option" where
  "parse_page_range page_range_text =
     (if CHR ''-'' \<in> set page_range_text then
        (case split_on CHR ''-'' page_range_text of
           [a, b] \<Rightarrow>
             (case py_int a of
                None \<Rightarrow> None
              | Some start_page \<Rightarrow>
                  (case py_int b of
                     None \<Rightarrow> None
                   | Some end_page \<Rightarrow> Some (start_page, end_page)))
         | _ \<Rightarrow> None)
      else (case py_int page_range_text of
              None \<Rightarrow> None
            | Some n \<Rightarrow> Some (n, n)))"

text \<open>
  Lines 533 to 565. \<open>Inl\<close> is the early return of \<open>GET_PAGE_RANGE\<close>; \<open>Inr\<close> carries
  \<open>start_page\<close> and \<open>end_page\<close> on to the extraction. The test of line 539 holds
  when the text in lower case is \<open>yes\<close> and the key \<open>pending_range\<close> is in the session;
  line 541 then deletes the key. \<open>num_pages\<close> defaults to 0 (line 559).
\<close>

definition read_page_range :: "string \<Rightarrow> 'p world \<Rightarrow> 'p world + (int \<times> int) \<times> 'p world" where
  "read_page_range text w0 =
     (let page_range_text = strip text;
          w = emit (reply_text Validating) w0
      in case (if lower page_range_text = ''yes'' then pending_range (session w) else None) of
           Some pending \<Rightarrow> Inr (pending, w\<lparr>session := (session w)\<lparr>pending_range := None\<rparr>\<rparr>)
         | None \<Rightarrow>
             (case parse_page_range page_range_text of
                None \<Rightarrow> Inl (emit (edit_text InvalidFormat) w)
              | Some (start_page, end_page) \<Rightarrow>
                  let n = (case num_pages (session w) of None \<Rightarrow> 0 | Some k \<Rightarrow> k)
                  in if start_page < 1 \<or> end_page > n \<or> start_page > end_page
                     then Inl (emit (edit_text (InvalidRange n)) w)
                     else Inr ((start_page, end_page), w)))"

subsection \<open>The page loop (lines 588 to 605)\<close>

text \<open>
  \<open>pdf_reader.pages[page_num]\<close>: a negative index counts from the end, an index out of
  range raises IndexError (\<open>None\<close>).
\<close>

definition pages_get :: "'p list \<Rightarrow> int \<Rightarrow> 'p option" where
  "pages_get pages page_num =
     (let n = int (length pages);
          j = (if page_num < 0 then n + page_num else page_num)
      in if j < 0 \<or> j \<ge> n then None else Some (pages ! nat j))"

text \<open>
  One round of the loop per element of \<open>range(start_page - 1, end_page)\<close>, with the
  counter \<open>i\<close> of \<open>enumerate\<close>. The writer is the list of pages added so far. \<open>Inl\<close>
  carries the \<open>page_num\<close> whose copy raised: its index is out of range, or \<open>add_page\<close>
  raised on it.
\<close>

fun add_pages ::
  "'p list \<Rightarrow> (int \<Rightarrow> bool) \<Rightarrow> int \<Rightarrow> int \<Rightarrow> (int \<Rightarrow> bool) \<Rightarrow> int \<Rightarrow> int list \<Rightarrow> 'p list
     \<Rightarrow> 'p world \<Rightarrow> (int + 'p list) \<times> 'p world" where
  "add_pages pages copy_raises total_pages progress_interval raises i [] pdf_writer w =
     (Inr pdf_writer, w)"
| "add_pages pages copy_raises total_pages progress_interval raises i (page_num # rest) pdf_writer w =
     (case pages_get pages page_num of
        None \<Rightarrow> (Inl page_num, w)
      | Some page \<Rightarrow>
          if copy_raises page_num then (Inl page_num, w)
          else
            add_pages pages copy_raises total_pages progress_interval raises (i + 1) rest
              (pdf_writer @ [page])
              (if i mod progress_interval = 0 \<and> i > 0 then
                 (if raises i
                  then emit (logger_warning CouldNotUpdateProgress)
                         (emit (edit_text_raised (ProcessingPages i total_pages)) w)
                  else emit (edit_text (ProcessingPages i total_pages)) w)
               else w))"

subsection \<open>Extraction (lines 572 to 610)\<close>

text \<open>
  The three ways the first part of the \<open>try\<close> block ends: the output file is written
  (\<open>Extracted\<close>), a page copy raised and the handler returned \<open>GET_PAGE_RANGE\<close>
  (\<open>PageFailed\<close>), or an exception left the block for the handler of line 701
  (\<open>Threw\<close>: opening the source or \<open>PdfReader\<close> raised).
\<close>

datatype 'p extraction = Extracted "'p world" | PageFailed "'p world" | Threw "'p world"

definition extract_pages :: "'p env \<Rightarrow> string \<Rightarrow> int \<Rightarrow> int \<Rightarrow> 'p world \<Rightarrow> 'p extraction" where
  "extract_pages env input_pdf_path start_page end_page w =
     (let output_pdf_path = temp_name env;
          w1 = w\<lparr>files := (files w)(output_pdf_path \<mapsto> NotPdf [])\<rparr>;
          total_pages = end_page - start_page + 1;
          progress_interval = max 1 (total_pages div 10)
      in case files w1 input_pdf_path of
           None \<Rightarrow> Threw w1
         | Some (NotPdf bytes) \<Rightarrow> Threw w1
         | Some (Pdf pages) \<Rightarrow>
             (case add_pages pages (page_copy_raises env) total_pages progress_interval
                     (progress_edit_raises env) 0 [start_page - 1 .. end_page - 1] [] w1 of
                (Inl page_num, w2) \<Rightarrow>
                  PageFailed (emit (edit_text (ErrorProcessingPage (page_num + 1)))
                               (emit (logger_error (ErrorAddingPage (page_num + 1))) w2))
              | (Inr pdf_writer, w2) \<Rightarrow>
                  (let w3 = emit (edit_text Finalizing) w2
                   in Extracted (w3\<lparr>files := (files w3)(output_pdf_path \<mapsto> Pdf pdf_writer)\<rparr>))))"

subsection \<open>Delivery (lines 612 to 699)\<close>

text \<open>\<open>os.remove\<close>: \<open>None\<close> when the path does not exist (FileNotFoundError).\<close>

definition os_remove :: "string \<Rightarrow> 'p filesystem \<Rightarrow> 'p filesystem option" where
  "os_remove path fs = (case fs path of None \<Rightarrow> None | Some f \<Rightarrow> Some (fs(path := None)))"

text \<open>Lines 681 to 699: the temporary file is removed and the next-action menu is sent.\<close>

definition finish :: "'p env \<Rightarrow> string \<Rightarrow> 'p world \<Rightarrow> conv_state \<times> 'p world" where
  "finish env input_pdf_path w =
     (let w1 = (case os_remove (temp_name env) (files w) of
                  None \<Rightarrow> emit (logger_error ErrorCleaningUp) w
                | Some fs \<Rightarrow> w\<lparr>files := fs\<rparr>)
      in (UPLOAD_PDF, emit (reply_text (NextMenu (''select_pdf:'' @ basename input_pdf_path))) w1))"

text \<open>
  The names of lines 613, 614, 642, 643 and 654: the name of the output, its path in the
  serve directory and the download link.
\<close>

definition output_filename :: "string \<Rightarrow> int \<Rightarrow> int \<Rightarrow> string" where
  "output_filename input_pdf_path start_page end_page =
     (let original_filename = basename input_pdf_path
      in fst (splitext original_filename) @ ''_pages_'' @ str_int start_page
           @ ''_to_'' @ str_int end_page @ ''.pdf'')"

definition web_serve_path :: "'p env \<Rightarrow> string \<Rightarrow> string" where
  "web_serve_path env out_name =
     (let unique_filename = uuid_file env @ ''_'' @ out_name
      in path_join WEB_SERVE_DIR unique_filename)"

definition download_url_of :: "'p env \<Rightarrow> string \<Rightarrow> string" where
  "download_url_of env token = PUBLIC_URL env @ ''/download/'' @ token"

text \<open>
  Lines 612 to 679. \<open>Inl\<close> is an exception for the handler of line 701 (\<open>getsize\<close> of a
  missing file). In the copy of lines 646 and 647 the destination is truncated when it
  is opened, so that a destination equal to the source ends empty.
\<close>

definition deliver ::
  "'p env \<Rightarrow> string \<Rightarrow> int \<Rightarrow> int \<Rightarrow> 'p world \<Rightarrow> 'p world + conv_state \<times> 'p world" where
  "deliver env input_pdf_path start_page end_page w =
     (let output_pdf_path = temp_name env;
          out_name = output_filename input_pdf_path start_page end_page
      in case files w output_pdf_path of
           None \<Rightarrow> Inl w
         | Some out \<Rightarrow>
             (let output_size = getsize env out
              in if output_size \<le> MAX_FILE_SIZE then
                   Inr (finish env input_pdf_path
                          (emit (reply_document out out_name start_page end_page)
                             (emit (edit_text Sending) w)))
                 else
                   (let w1 = emit (edit_text (TooLarge (output_size div (1024 * 1024)))) w;
                        serve_path = web_serve_path env out_name;
                        w2 = w1\<lparr>files := (files w1)(serve_path \<mapsto>
                                 (if serve_path = output_pdf_path then NotPdf [] else out))\<rparr>;
                        issued = generate_download_token (uuid_token env) (clock env)
                                   serve_path out_name None (file_tokens w2);
                        token = fst issued;
                        w3 = w2\<lparr>file_tokens := snd issued\<rparr>;
                        download_url = download_url_of env token;
                        w4 = emit (logger_info (GeneratedDownloadURL download_url)) w3
                    in if contains ''localhost'' download_url \<or> contains ''127.0.0.1'' download_url
                       then Inr (UPLOAD_PDF,
                              emit (edit_text NotConfigured)
                                (emit (logger_error (InvalidURLDetected download_url)) w4))
                       else Inr (finish env input_pdf_path
                              (emit (reply_text (LinkReady download_url start_page end_page
                                                   (output_size div (1024 * 1024)))) w4)))))"

text \<open>Lines 701 to 713: the handler of every other exception of the \<open>try\<close> block.\<close>

definition processing_failed :: "'p env \<Rightarrow> 'p world \<Rightarrow> conv_state \<times> 'p world" where
  "processing_failed env w =
     (let w1 = emit (edit_text ProcessingFailed) (emit (logger_error ErrorProcessingPDF) w);
          w2 = (case os_remove (temp_name env) (files w1) of
                  None \<Rightarrow> w1
                | Some fs \<Rightarrow> w1\<lparr>files := fs\<rparr>)
      in (UPLOAD_PDF, w2))"

subsection \<open>The handler\<close>

text \<open>
  \<open>context.user_data["pdf_path"]\<close> of line 570 stands before the \<open>try\<close>: a missing key
  leaves the handler as KeyError.
\<close>

definition process_page_range :: "'p env \<Rightarrow> string \<Rightarrow> 'p world \<Rightarrow> conv_state result \<times> 'p world" where
  "process_page_range env text w0 =
     (case read_page_range text w0 of
        Inl w \<Rightarrow> (Returned GET_PAGE_RANGE, w)
      | Inr ((start_page, end_page), w) \<Rightarrow>
          (let w1 = emit (edit_text Creating) w
           in case pdf_path (session w1) of
                None \<Rightarrow> (Raised KeyError, w1)
              | Some input_pdf_path \<Rightarrow>
                  (case extract_pages env input_pdf_path start_page end_page w1 of
                     Threw w2 \<Rightarrow> (case processing_failed env w2 of (st, w3) \<Rightarrow> (Returned st, w3))
                   | PageFailed w2 \<Rightarrow> (Returned GET_PAGE_RANGE, w2)
                   | Extracted w2 \<Rightarrow>
                       (case deliver env input_pdf_path start_page end_page w2 of
                          Inl w3 \<Rightarrow> (case processing_failed env w3 of (st, w4) \<Rightarrow> (Returned st, w4))
                        | Inr (st, w3) \<Rightarrow> (Returned st, w3)))))"

section \<open>\<open>get_filename_from_url\<close> (lines 506 to 528)\<close>

text \<open>The text after the first occurrence of \<open>needle\<close>, when there is one.\<close>

fun after_first :: "string \<Rightarrow> string \<Rightarrow> string option" where
  "after_first needle [] = (if needle = [] then Some [] else None)"
| "after_first needle (c # cs) =
     (if prefix needle (c # cs) then Some (drop (length needle) (c # cs))
      else after_first needle cs)"

text \<open>
  Group 1 of \<open>re.search(r'filename="?([^"]*)"?', s)\<close>, \<open>None\<close> when there is no match.
  The pattern starts with the literal \<open>filename=\<close>, and everything after it may match
  the empty text, so the match starts at the first \<open>filename=\<close>; one double quote
  (code point 34) is skipped when it follows, and the group is the longest run without a
  double quote.
\<close>

definition filename_match :: "string \<Rightarrow> string option" where
  "filename_match s =
     (case after_first ''filename='' s of
        None \<Rightarrow> None
      | Some rest \<Rightarrow>
          Some (takeWhile (\<lambda>c. c \<noteq> CHR 0x22)
                  (case rest of
                     [] \<Rightarrow> []
                   | c # cs \<Rightarrow> if c = CHR 0x22 then cs else c # cs)))"

text \<open>
  \<open>urlparse\<close> of the standard library is not part of the program: \<open>urlparse_path url\<close>
  stands for \<open>urlparse(url).path\<close>. A header that is \<open>None\<close> or empty is false in the
  test of line 509.
\<close>

definition get_filename_from_url :: "(string \<Rightarrow> string) \<Rightarrow> string \<Rightarrow> string option \<Rightarrow> string" where
  "get_filename_from_url urlparse_path url content_disposition =
     (case (case content_disposition of
              None \<Rightarrow> None
            | Some header \<Rightarrow> if header = [] then None else filename_match header) of
        Some group1 \<Rightarrow> group1
      | None \<Rightarrow>
          (let path = urlparse_path url;
               filename = basename path
           in if filename = [] then ''document.pdf''
              else if \<not> endswith (lower filename) ''.pdf'' then filename @ ''.pdf''
              else filename))"

section \<open>Operations on the token registry over time\<close>

text \<open>
  What happens to \<open>file_tokens\<close> after a token was issued: further calls of
  \<open>generate_download_token\<close> and the timers of line 120 firing.
\<close>

datatype registry_op =
    Issue string real string string "string option"
  | TimerFires string

fun op_token :: "registry_op \<Rightarrow> string" where
  "op_token (Issue token time_now path original_filename ip) = token"
| "op_token (TimerFires token) = token"

fun run_op :: "registry_op \<Rightarrow> registry \<Rightarrow> registry" where
  "run_op (Issue token time_now path original_filename ip) reg =
     snd (generate_download_token token time_now path original_filename ip reg)"
| "run_op (TimerFires token) reg = timer_pop token reg"

definition run_ops :: "registry_op list \<Rightarrow> registry \<Rightarrow> registry" where
  "run_ops ops reg = fold run_op ops reg"

section \<open>Counting progress reports\<close>

text \<open>
  A progress report of the page loop is a call of \<open>edit_text\<close> with the text of line
  597, whether it was shown or raised.
\<close>

fun is_progress :: "'p effect \<Rightarrow> bool" where
  "is_progress (edit_text (ProcessingPages i n)) = True"
| "is_progress (edit_text_raised (ProcessingPages i n)) = True"
| "is_progress e = False"

definition progress_reports :: "'p world \<Rightarrow> nat" where
  "progress_reports w = length (filter is_progress (effects w))"

fun world_of :: "'p extraction \<Rightarrow> 'p world" where
  "world_of (Extracted w) = w"
| "world_of (PageFailed w) = w"
| "world_of (Threw w) = w"

section \<open>The other handlers\<close>

text \<open>Whether the update came as a message or as a press of an inline button.\<close>

datatype origin = FromMessage | FromCallback

subsection \<open>\<open>start\<close> and \<open>cancel\<close> (lines 141 to 163 and 760 to 765)\<close>

definition start :: "origin \<Rightarrow> 'p world \<Rightarrow> conv_state \<times> 'p world" where
  "start via w =
     (case via of
        FromMessage \<Rightarrow> (UPLOAD_PDF, emit (reply_text Welcome) w)
      | FromCallback \<Rightarrow> (UPLOAD_PDF, emit (edit_text Welcome) w))"

definition cancel :: "'p world \<Rightarrow> conv_state \<times> 'p world" where
  "cancel w = (END, emit (reply_text Cancelled) w)"

subsection \<open>\<open>list_local_pdfs\<close> (lines 165 to 212)\<close>

text \<open>
  \<open>stored\<close> is the value of \<open>glob.glob\<close> on the storage directory. With neither a
  query nor a message nothing is sent.
\<close>

definition list_local_pdfs :: "string list \<Rightarrow> origin \<Rightarrow> 'p world \<Rightarrow> conv_state \<times> 'p world" where
  "list_local_pdfs stored via w0 =
     (let w = (case via of FromCallback \<Rightarrow> emit query_answer w0 | FromMessage \<Rightarrow> w0);
          send = (\<lambda>m. case via of
                          FromCallback \<Rightarrow> emit (edit_text m) w
                        | FromMessage \<Rightarrow> emit (reply_text m) w)
      in if stored = [] then (UPLOAD_PDF, send NoStoredPdfs)
         else (SELECT_LOCAL_PDF,
               send (SelectStored (map (\<lambda>pdf_path. ''select_pdf:'' @ basename pdf_path)
                                     (take 10 stored) @ [''back_to_start'']))))"

subsection \<open>\<open>handle_pdf\<close> (lines 356 to 421)\<close>

text \<open>The uploaded document: its size, its name when it has one, and its bytes.\<close>

record 'p document =
  file_size :: int
  document_file_name :: "string option"
  payload :: "'p content"

text \<open>
  How the transfer of lines 381 to 389 went: \<open>get_file\<close> raised; or
  \<open>download_to_drive\<close> raised, leaving at the path what it had written (\<open>None\<close>:
  the path is as it was); or the file was written in full.
\<close>

datatype 'p transfer = GetFileRaised | DownloadRaised "'p content option" | Downloaded

text \<open>
  Lines 410 to 421. \<open>local_pdf_path\<close> is \<open>None\<close> when the exception came before
  \<open>pdf_path\<close> was assigned. An exception of \<open>os.remove\<close> is passed over.
\<close>

definition upload_failed :: "string option \<Rightarrow> 'p world \<Rightarrow> conv_state \<times> 'p world" where
  "upload_failed local_pdf_path w =
     (let w1 = emit (edit_text UploadFailed) (emit (logger_error ErrorHandlingPDF) w);
          w2 = (case local_pdf_path of
                  None \<Rightarrow> w1
                | Some path \<Rightarrow>
                    (case files w1 path of
                       None \<Rightarrow> w1
                     | Some f \<Rightarrow>
                         (case os_remove path (files w1) of
                            None \<Rightarrow> w1
                          | Some fs \<Rightarrow> w1\<lparr>files := fs\<rparr>)))
      in (UPLOAD_PDF, w2))"

definition upload_name :: "int \<Rightarrow> 'p document \<Rightarrow> string" where
  "upload_name user_id document =
     (case document_file_name document of
        None \<Rightarrow> ''telegram_'' @ str_int user_id @ ''.pdf''
      | Some n \<Rightarrow> if n = [] then ''telegram_'' @ str_int user_id @ ''.pdf'' else n)"

definition handle_pdf :: "int \<Rightarrow> 'p transfer \<Rightarrow> 'p document \<Rightarrow> 'p world \<Rightarrow> conv_state \<times> 'p world" where
  "handle_pdf user_id transfer document w0 =
     (if file_size document > MAX_FILE_SIZE then (UPLOAD_PDF, emit (reply_text UploadTooLarge) w0)
      else
        (let w = emit (reply_text DownloadingUpload) w0;
             safe_filename = basename (upload_name user_id document);
             path = path_join PDF_STORAGE_DIR safe_filename
         in case transfer of
              GetFileRaised \<Rightarrow> upload_failed None w
            | DownloadRaised partial \<Rightarrow>
                upload_failed (Some path)
                  (case partial of
                     None \<Rightarrow> w
                   | Some bytes \<Rightarrow> w\<lparr>files := (files w)(path \<mapsto> bytes)\<rparr>)
            | Downloaded \<Rightarrow>
                (let w1 = w\<lparr>files := (files w)(path \<mapsto> payload document)\<rparr>;
                     w2 = emit (edit_text AnalyzingUpload) w1;
                     w3 = w2\<lparr>session := (session w2)\<lparr>pdf_path := Some path\<rparr>\<rparr>
                 in case files w3 path of
                      Some (Pdf pages) \<Rightarrow>
                        (let n = int (length pages);
                             w4 = w3\<lparr>session := (session w3)\<lparr>num_pages := Some n\<rparr>\<rparr>
                         in (GET_PAGE_RANGE, emit (edit_text (PdfReceived n)) w4))
                    | Some (NotPdf bytes) \<Rightarrow> upload_failed (Some path) w3
                    | None \<Rightarrow> upload_failed (Some path) w3)))"

subsection \<open>\<open>handle_url\<close> (lines 423 to 504)\<close>

text \<open>
  The answer to the HEAD request: \<open>requests.head\<close> raised a RequestException, or a
  response with its status code and its Content-Type, Content-Length and
  Content-Disposition headers.
\<close>

datatype head_response =
    HeadRaised
  | HeadResponse int "string option" "string option" "string option"

text \<open>A header that is absent or empty is false in the tests of lines 457, 466 and 474.\<close>

definition truthy :: "string option \<Rightarrow> string option" where
  "truthy h = (case h of None \<Rightarrow> None | Some v \<Rightarrow> if v = [] then None else Some v)"

text \<open>
  \<open>int(content_length)\<close> of line 466 stands outside the handler of
  RequestException: its ValueError leaves \<open>handle_url\<close>.
\<close>

definition handle_url ::
  "(string \<Rightarrow> string) \<Rightarrow> head_response \<Rightarrow> string \<Rightarrow> 'p world \<Rightarrow> conv_state result \<times> 'p world" where
  "handle_url urlparse_path head text w0 =
     (let url = strip text
      in if \<not> (startswith url ''http://'' \<or> startswith url ''https://'')
         then (Returned GET_URL, emit (reply_text InvalidUrl) w0)
         else
           (let path = lower (urlparse_path url);
                w1 = w0\<lparr>session := (session w0)\<lparr>download_url := Some url\<rparr>\<rparr>;
                w = emit (reply_text CheckingUrl) w1
            in case head of
                 HeadRaised \<Rightarrow>
                   (Returned GET_URL, emit (edit_text UrlError) (emit (logger_error ErrorCheckingURL) w))
               | HeadResponse status_code ctype clength cdisp \<Rightarrow>
                   if status_code \<noteq> 200 then (Returned GET_URL, emit (edit_text (BadStatus status_code)) w)
                   else
                     (let content_type = lower (case ctype of None \<Rightarrow> [] | Some v \<Rightarrow> v)
                      in if content_type \<noteq> [] \<and> \<not> contains ''pdf'' content_type
                            \<and> \<not> endswith path ''.pdf''
                         then (Returned GET_URL, emit (edit_text NotAPdf) w)
                         else
                           (case truthy clength of
                              None \<Rightarrow>
                                (let name = get_filename_from_url urlparse_path url cdisp;
                                     w2 = w\<lparr>session := (session w)\<lparr>file_name := Some name\<rparr>\<rparr>
                                 in (Returned CONFIRM_DOWNLOAD,
                                     emit (edit_text (ConfirmDownload name None)) w2))
                            | Some content_length \<Rightarrow>
                                (case py_int content_length of
                                   None \<Rightarrow> (Raised ValueError, w)
                                 | Some nbytes \<Rightarrow>
                                     if nbytes > MAX_DOWNLOAD_SIZE
                                     then (Returned GET_URL,
                                           emit (edit_text (DownloadTooLarge (nbytes div (1024 * 1024)))) w)
                                     else
                                       (let name = get_filename_from_url urlparse_path url cdisp;
                                            w2 = w\<lparr>session := (session w)\<lparr>file_name := Some name\<rparr>\<rparr>
                                        in (Returned CONFIRM_DOWNLOAD,
                                            emit (edit_text (ConfirmDownload name
                                                               (Some (nbytes div (1024 * 1024))))) w2)))))))"

subsection \<open>The download loop of \<open>button_handler\<close> (lines 299 to 324)\<close>

text \<open>
  One element of \<open>response.iter_content\<close>: the length of the chunk, the value of
  \<open>time.time()\<close> of line 310 after it was written, and whether the progress edit raises
  if it is made after this chunk.
\<close>

record chunk =
  chunk_len :: nat
  chunk_time :: real
  chunk_edit_raises :: bool

text \<open>
  Lines 316 to 324: the progress edit after chunk \<open>c\<close>. It raises when the channel
  raises, and when one of the two divisions by \<open>1024*1024\<close> in its text (line 321)
  overflows; a warning is logged then and the download goes on.
\<close>

definition progress_update :: "chunk \<Rightarrow> int \<Rightarrow> int \<Rightarrow> 'p world \<Rightarrow> 'p world" where
  "progress_update c downloaded total_size w =
     (if overflows (real_of_int downloaded / (1024 * 1024))
         \<or> overflows (real_of_int total_size / (1024 * 1024))
         \<or> chunk_edit_raises c
      then emit (logger_warning CouldNotUpdateProgressMessage)
             (emit (edit_text_raised (Downloading downloaded total_size)) w)
      else emit (edit_text (Downloading downloaded total_size)) w)"

text \<open>
  The test of lines 311 to 313, in the order Python evaluates it; \<open>None\<close> is an
  OverflowError. The quotient of two integers is the double nearest to the exact
  quotient, \<open>0.05\<close> is the double nearest to one twentieth, the two time stamps are
  doubles (finite ones, as \<open>time.time()\<close> returns them), and each subtraction rounds.
  Line 313 subtracts \<open>last_update_time\<close>, an integer that is converted to a double,
  from the seconds since the start.
\<close>

definition needs_update :: "int \<Rightarrow> real \<Rightarrow> real \<Rightarrow> int \<Rightarrow> int \<Rightarrow> bool option" where
  "needs_update total_size start_time current_time downloaded last_update_time =
     (if total_size > 0 then
        (if overflows (real_of_int downloaded / real_of_int total_size)
            \<or> overflows (real_of_int last_update_time / real_of_int total_size)
         then None
         else if fl (fl (real_of_int downloaded / real_of_int total_size)
                       - fl (real_of_int last_update_time / real_of_int total_size)) > fl (1 / 20)
         then Some True
         else if overflows (real_of_int last_update_time) then None
         else Some (fl (fl (fl current_time - fl start_time) - fl (real_of_int last_update_time))
                      > 10))
      else Some False)"

text \<open>
  The loop with its variables \<open>downloaded\<close> and \<open>last_update_time\<close>, which line 315
  sets to \<open>downloaded\<close>. An empty chunk is skipped by the test of line 305. \<open>Inl\<close> is
  an exception that leaves the loop, with the world at that point.
\<close>

fun download_chunks ::
  "int \<Rightarrow> real \<Rightarrow> chunk list \<Rightarrow> int \<Rightarrow> int \<Rightarrow> 'p world \<Rightarrow> 'p world + 'p world" where
  "download_chunks total_size start_time [] downloaded last_update_time w = Inr w"
| "download_chunks total_size start_time (c # cs) downloaded0 last_update_time w =
     (if chunk_len c = 0 then download_chunks total_size start_time cs downloaded0 last_update_time w
      else
        (let downloaded = downloaded0 + int (chunk_len c);
             current_time = chunk_time c
         in case needs_update total_size start_time current_time downloaded last_update_time of
              None \<Rightarrow> Inl w
            | Some update \<Rightarrow>
                if update
                then download_chunks total_size start_time cs downloaded downloaded
                       (progress_update c downloaded total_size w)
                else download_chunks total_size start_time cs downloaded last_update_time w))"

subsection \<open>\<open>button_handler\<close> (lines 214 to 354)\<close>

text \<open>
  The answer to the GET request of line 294: \<open>requests.get\<close> or \<open>raise_for_status\<close>
  raised, or a response with its content-length header, the value of \<open>time.time()\<close>
  of line 301, the chunks that arrive, whether the stream raises after them, and the
  bytes the file holds when the \<open>with\<close> block of line 303 is left.
\<close>

datatype 'p get_response =
    GetRaised
  | GetResponse "string option" real "chunk list" bool "'p content"

definition download_failed :: "'p world \<Rightarrow> conv_state \<times> 'p world" where
  "download_failed w = (END, emit (edit_text DownloadError) (emit (logger_error ErrorDownloadingFile) w))"

text \<open>
  The names that are directories in the storage directory: the empty name, \<open>.\<close> and
  \<open>..\<close>. Such a path exists, and \<open>open\<close> raises on it.
\<close>

definition names_directory :: "string \<Rightarrow> bool" where
  "names_directory name = (name = [] \<or> name = ''.'' \<or> name = ''..'')"

text \<open>
  Lines 277 to 349, the branch of \<open>confirm_download\<close>. Every exception after line 287
  ends in the handler of line 342: of the request, of \<open>int\<close> on the header, of
  \<open>open\<close> on a directory, of the loop and of the stream, and of reading the pages.
\<close>

definition confirm_download :: "'p get_response \<Rightarrow> 'p world \<Rightarrow> conv_state \<times> 'p world" where
  "confirm_download response w0 =
     (case truthy (download_url (session w0)) of
        None \<Rightarrow> (END, emit (edit_text IssueTryAgain) w0)
      | Some url \<Rightarrow>
          (let w = emit (edit_text StartingDownload) w0;
               name = (case file_name (session w) of None \<Rightarrow> ''downloaded.pdf'' | Some n \<Rightarrow> n);
               safe_filename = basename name;
               path = path_join PDF_STORAGE_DIR safe_filename
           in case response of
                GetRaised \<Rightarrow> download_failed w
              | GetResponse clength start_time chunks broken body \<Rightarrow>
                  (case (case clength of None \<Rightarrow> Some 0 | Some v \<Rightarrow> py_int v) of
                     None \<Rightarrow> download_failed w
                   | Some total_size \<Rightarrow>
                       if names_directory safe_filename then download_failed w
                       else
                         (let w1 = w\<lparr>files := (files w)(path \<mapsto> NotPdf [])\<rparr>
                          in case download_chunks total_size start_time chunks 0 0 w1 of
                               Inl w2 \<Rightarrow> download_failed (w2\<lparr>files := (files w2)(path \<mapsto> body)\<rparr>)
                             | Inr w2 \<Rightarrow>
                                 (let w3 = w2\<lparr>files := (files w2)(path \<mapsto> body)\<rparr>
                                  in if broken then download_failed w3
                                     else
                                       (let w4 = emit (edit_text DownloadComplete) w3
                                        in case files w4 path of
                                             Some (Pdf pages) \<Rightarrow>
                                               (let n = int (length pages);
                                                    w5 = w4\<lparr>session := (session w4)\<lparr>num_pages := Some n\<rparr>\<rparr>;
                                                    w6 = w5\<lparr>session := (session w5)\<lparr>pdf_path := Some path\<rparr>\<rparr>
                                                in (GET_PAGE_RANGE, emit (edit_text (DownloadedPdf n)) w6))
                                           | Some (NotPdf bytes) \<Rightarrow> download_failed w4
                                           | None \<Rightarrow> download_failed w4))))))"

text \<open>
  Lines 236 to 276, the branch of \<open>select_pdf:\<close>; \<open>name\<close> is
  \<open>query.data.split(":", 1)[1]\<close>. A name of a directory exists and cannot be opened.
\<close>

definition analysis_failed :: "string list \<Rightarrow> 'p world \<Rightarrow> conv_state \<times> 'p world" where
  "analysis_failed stored w =
     list_local_pdfs stored FromCallback
       (emit (edit_text ErrorSelected) (emit (logger_error ErrorAnalyzingPDF) w))"

definition select_pdf :: "string list \<Rightarrow> string \<Rightarrow> 'p world \<Rightarrow> conv_state \<times> 'p world" where
  "select_pdf stored name w0 =
     (let path = path_join PDF_STORAGE_DIR name;
          w1 = w0\<lparr>session := (session w0)\<lparr>pdf_path := Some path\<rparr>\<rparr>;
          w = emit (edit_text AnalyzingSelected) w1
      in if names_directory name then analysis_failed stored w
         else
           (case files w0 path of
              None \<Rightarrow> (UPLOAD_PDF, emit (edit_text FileNoLongerExists) w0)
            | Some (Pdf pages) \<Rightarrow>
                (let n = int (length pages);
                     w2 = w\<lparr>session := (session w)\<lparr>num_pages := Some n\<rparr>\<rparr>
                 in (GET_PAGE_RANGE, emit (edit_text (SelectedPdf name n)) w2))
            | Some (NotPdf bytes) \<Rightarrow> analysis_failed stored w))"

text \<open>
  What a handler takes from outside the program when it runs: the environment of
  \<open>process_page_range\<close>, \<open>urlparse\<close>, the answers to the two HTTP requests, the course
  of an upload, the value of \<open>glob.glob\<close> on the storage directory and the id of the
  user.
\<close>

record 'p outside =
  page_env :: "'p env"
  urlparse_path_of :: "string \<Rightarrow> string"
  head_answer :: head_response
  get_answer :: "'p get_response"
  upload_transfer :: "'p transfer"
  glob_pdfs :: "string list"
  user_id_of :: int

definition button_handler :: "'p outside \<Rightarrow> string \<Rightarrow> 'p world \<Rightarrow> conv_state \<times> 'p world" where
  "button_handler outside data w0 =
     (let w = emit query_answer w0
      in if data = ''upload'' then (UPLOAD_PDF, emit (edit_text PleaseUpload) w)
         else if data = ''url'' then (GET_URL, emit (edit_text PleaseSendLink) w)
         else if data = ''local'' then list_local_pdfs (glob_pdfs outside) FromCallback w
         else if data = ''back_to_start'' then start FromCallback w
         else if startswith data ''select_pdf:''
           then select_pdf (glob_pdfs outside) (drop (length ''select_pdf:'') data) w
         else if data = ''confirm_download'' then confirm_download (get_answer outside) w
         else if data = ''cancel_download'' then (END, emit (edit_text Cancelled) w)
         else (UPLOAD_PDF, w))"

subsection \<open>The storage commands and the error handler (lines 715 to 797)\<close>

definition list_stored_pdfs :: "string list \<Rightarrow> 'p world \<Rightarrow> 'p world" where
  "list_stored_pdfs stored w =
     (if stored = [] then emit (reply_text NoStoredPdfs) w
      else emit (reply_text (StoredFiles (map basename stored))) w)"

text \<open>The loop of lines 751 to 756 with its counter; a file that is gone is logged.\<close>

fun remove_all :: "string list \<Rightarrow> nat \<Rightarrow> 'p world \<Rightarrow> nat \<times> 'p world" where
  "remove_all [] deleted_count w = (deleted_count, w)"
| "remove_all (pdf_file # rest) deleted_count w =
     (case os_remove pdf_file (files w) of
        None \<Rightarrow> remove_all rest deleted_count (emit (logger_error (ErrorDeleting pdf_file)) w)
      | Some fs \<Rightarrow> remove_all rest (deleted_count + 1) (w\<lparr>files := fs\<rparr>))"

definition clear_stored_pdfs :: "string list \<Rightarrow> string list \<Rightarrow> 'p world \<Rightarrow> 'p world" where
  "clear_stored_pdfs stored args w =
     (case args of
        [] \<Rightarrow> emit (reply_text ClearWarning) w
      | arg0 # others \<Rightarrow>
          if lower arg0 \<noteq> ''confirm'' then emit (reply_text ClearWarning) w
          else if stored = [] then emit (reply_text NothingToDelete) w
          else (case remove_all stored 0 w of
                  (deleted_count, w1) \<Rightarrow> emit (reply_text (Deleted deleted_count)) w1))"

definition error_handler :: "'p world \<Rightarrow> 'p world" where
  "error_handler w = emit (reply_text ErrorOccurred) (emit (logger_error ErrorCaused) w)"

section \<open>The conversation (lines 816 to 848)\<close>

text \<open>
  The updates the application receives from one user: the four commands, a press of an
  inline button with its data, a text that is no command, a document of type PDF, and
  anything else.
\<close>

datatype 'p update =
    CommandStart
  | CommandCancel
  | CommandListPdfs
  | CommandClearPdfs "string list"
  | CallbackQuery string
  | TextMessage string
  | PdfDocument "'p document"
  | OtherUpdate

text \<open>The state of the conversation with the user (\<open>None\<close>: there is none) and the world.\<close>

record 'p bot =
  conversation :: "conv_state option"
  world :: "'p world"

text \<open>
  The value a handler returned becomes the state; \<open>END\<close> ends the conversation. A handler
  that raised leaves the state as it was, and the error handler runs.
\<close>

definition returned :: "conv_state \<times> 'p world \<Rightarrow> 'p bot" where
  "returned r = \<lparr>conversation = (if fst r = END then None else Some (fst r)), world = snd r\<rparr>"

definition settled :: "'p bot \<Rightarrow> conv_state result \<times> 'p world \<Rightarrow> 'p bot" where
  "settled b r =
     (case fst r of
        Returned st \<Rightarrow> returned (st, snd r)
      | Raised e \<Rightarrow> b\<lparr>world := error_handler (snd r)\<rparr>)"

text \<open>
  The handlers registered in \<open>main\<close>: \<open>/start\<close> enters (and re-enters) the
  conversation; within it each state has its handlers and \<open>/cancel\<close> is the fallback;
  \<open>/list_pdfs\<close> and \<open>/clear_pdfs\<close> are handled outside the conversation. An update no
  handler takes changes nothing.
\<close>

definition dispatch :: "'p outside \<Rightarrow> 'p update \<Rightarrow> 'p bot \<Rightarrow> 'p bot" where
  "dispatch outside u b =
     (let w = world b
      in case u of
           CommandStart \<Rightarrow> returned (start FromMessage w)
         | CommandCancel \<Rightarrow> (if conversation b = None then b else returned (cancel w))
         | CommandListPdfs \<Rightarrow> b\<lparr>world := list_stored_pdfs (glob_pdfs outside) w\<rparr>
         | CommandClearPdfs args \<Rightarrow> b\<lparr>world := clear_stored_pdfs (glob_pdfs outside) args w\<rparr>
         | CallbackQuery data \<Rightarrow>
             (if conversation b = Some UPLOAD_PDF \<or> conversation b = Some CONFIRM_DOWNLOAD
                 \<or> conversation b = Some SELECT_LOCAL_PDF
              then returned (button_handler outside data w) else b)
         | PdfDocument document \<Rightarrow>
             (if conversation b = Some UPLOAD_PDF
              then returned (handle_pdf (user_id_of outside) (upload_transfer outside) document w)
              else b)
         | TextMessage text \<Rightarrow>
             (if conversation b = Some GET_URL
              then settled b (handle_url (urlparse_path_of outside) (head_answer outside) text w)
              else if conversation b = Some GET_PAGE_RANGE
              then settled b (process_page_range (page_env outside) text w)
              else b)
         | OtherUpdate \<Rightarrow> b)"

text \<open>A run of the application: the updates in order, each with what the outside does.\<close>

fun run :: "('p outside \<times> 'p update) list \<Rightarrow> 'p bot \<Rightarrow> 'p bot" where
  "run [] b = b"
| "run ((outside, u) # rest) b = run rest (dispatch outside u b)"

definition initial_bot :: "'p filesystem \<Rightarrow> 'p bot" where
  "initial_bot fs = \<lparr>conversation = None,
     world = \<lparr>session = empty_user_data, files = fs, file_tokens = Map.empty, effects = []\<rparr>\<rparr>"

section \<open>The \<open>pending_range\<close> key\<close>

text \<open>
  A handler made no pending range when, after it, the key is absent or holds what it
  held before.
\<close>

definition made_no_pending :: "user_data \<Rightarrow> user_data \<Rightarrow> bool" where
  "made_no_pending before after =
     (pending_range after = None \<or> pending_range after = pending_range before)"

section \<open>Sample inputs\<close>

text \<open>
  A stored document of four pages (the pages are numbers here), recorded in the session
  as the uploads and downloads record it, and an environment with a public address.
\<close>

definition sample_env :: "nat env" where
  "sample_env = \<lparr>temp_name = ''/tmp/tmpk3x9.pdf'', uuid_file = ''0b5e'', uuid_token = ''7c1d'',
     clock = 1000, PUBLIC_URL = ''http://203.0.113.7:8000'',
     page_copy_raises = (\<lambda>page_num. False), progress_edit_raises = (\<lambda>i. False),
     getsize = (\<lambda>c. 4096)\<rparr>"

definition sample_world :: "nat world" where
  "sample_world = \<lparr>session = \<lparr>pdf_path = Some ''stored_pdfs/a.pdf'', num_pages = Some 4,
       download_url = None, file_name = None, pending_range = None\<rparr>,
     files = [''stored_pdfs/a.pdf'' \<mapsto> Pdf [10, 20, 30, 40]],
     file_tokens = Map.empty, effects = []\<rparr>"

text \<open>A stored document of nineteen pages.\<close>

definition long_world :: "nat world" where
  "long_world = \<lparr>session = \<lparr>pdf_path = Some ''stored_pdfs/b.pdf'', num_pages = Some 19,
       download_url = None, file_name = None, pending_range = None\<rparr>,
     files = [''stored_pdfs/b.pdf'' \<mapsto> Pdf [1 ..< 20]],
     file_tokens = Map.empty, effects = []\<rparr>"

text \<open>A large output: the same environment with a file size above the limit.\<close>

definition big_env :: "nat env" where
  "big_env = sample_env\<lparr>getsize := (\<lambda>c. 60000000)\<rparr>"

text \<open>The world after the extraction of pages 2 to 3 wrote its output.\<close>

definition extracted_world :: "nat world" where
  "extracted_world = sample_world\<lparr>files := (files sample_world)(''/tmp/tmpk3x9.pdf'' \<mapsto> Pdf [20, 30])\<rparr>"

text \<open>An upload of the four-page document after \<open>/start\<close>.\<close>

definition sample_outside :: "nat outside" where
  "sample_outside = \<lparr>page_env = sample_env, urlparse_path_of = (\<lambda>url. ''/a.pdf''),
     head_answer = HeadRaised, get_answer = GetRaised, upload_transfer = Downloaded,
     glob_pdfs = [], user_id_of = 42\<rparr>"

definition sample_upload :: "nat document" where
  "sample_upload = \<lparr>file_size = 4096, document_file_name = Some ''a.pdf'',
     payload = Pdf [10, 20, 30, 40]\<rparr>"

definition sample_steps :: "(nat outside \<times> nat update) list" where
  "sample_steps = [(sample_outside, CommandStart), (sample_outside, PdfDocument sample_upload)]"


definition empty_world :: "nat world" where
  "empty_world = \<lparr>session = empty_user_data, files = Map.empty, file_tokens = Map.empty,
     effects = []\<rparr>"

text \<open>Two chunks of one MiB of a download of 100 MiB, 11 and 22 seconds after its start.\<close>

definition slow_chunks :: "chunk list" where
  "slow_chunks = [\<lparr>chunk_len = 1048576, chunk_time = 11, chunk_edit_raises = False\<rparr>,
                  \<lparr>chunk_len = 1048576, chunk_time = 22, chunk_edit_raises = False\<rparr>]"

text \<open>A token issued at time 1000, and what happens to the registry afterwards.\<close>

definition sample_registry :: registry where
  "sample_registry =
     snd (generate_download_token ''7c1d'' 1000 ''web_serve/0b5e_a.pdf'' ''a.pdf'' None Map.empty)"

definition sample_later :: "registry_op list" where
  "sample_later = [Issue ''99aa'' 2000 ''web_serve/41f0_b.pdf'' ''b.pdf'' None, TimerFires ''55bb'']"

definition served_files :: "string \<rightharpoonup> string" where
  "served_files = [''web_serve/0b5e_a.pdf'' \<mapsto> ''%PDF-1.7'']"

text \<open>A session that confirmed a download, and the answer to its GET request.\<close>

definition url_world :: "nat world" where
  "url_world = empty_world\<lparr>session := empty_user_data\<lparr>
     download_url := Some ''https://example.org/big.pdf'', file_name := Some ''big.pdf''\<rparr>\<rparr>"

definition slow_response :: "nat get_response" where
  "slow_response = GetResponse (Some ''104857600'') 0 slow_chunks False (Pdf [10, 20, 30, 40])"

section \<open>Properties\<close>

subsection \<open>The word \<open>yes\<close> is no page range\<close>

lemma lower_char_space: "isspace c \<Longrightarrow> lower_char c = c"
  by (auto simp: isspace_def lower_char_def Let_def)

lemma lower_char_digit: "isdigit c \<Longrightarrow> lower_char c = c"
  by (auto simp: isdigit_def lower_char_def Let_def)

lemma lower_yes_chars:
  assumes "lower_char c \<in> {CHR ''y'', CHR ''e'', CHR ''s''}"
  shows "\<not> isspace c \<and> \<not> isdigit c \<and> c \<noteq> CHR ''-'' \<and> c \<noteq> CHR ''+''"
proof -
  have a: "\<not> isspace c"
  proof
    assume h: "isspace c"
    with lower_char_space assms have "c \<in> {CHR ''y'', CHR ''e'', CHR ''s''}" by simp
    with h show False by (auto simp: isspace_def)
  qed
  have b: "\<not> isdigit c"
  proof
    assume h: "isdigit c"
    with lower_char_digit assms have "c \<in> {CHR ''y'', CHR ''e'', CHR ''s''}" by simp
    with h show False by (auto simp: isdigit_def)
  qed
  have c: "c \<noteq> CHR ''-'' \<and> c \<noteq> CHR ''+''"
    using assms by (auto simp: lower_char_def)
  from a b c show ?thesis by simp
qed

lemma int_isspace_isspace: "int_isspace c \<Longrightarrow> isspace c"
  by (auto simp: int_isspace_def isspace_def Let_def)

lemma yes_is_no_range:
  assumes "lower t = ''yes''"
  shows "parse_page_range t = None"
proof -
  from assms obtain a b c where t: "t = [a, b, c]"
    and l: "lower_char a = CHR ''y''" "lower_char b = CHR ''e''" "lower_char c = CHR ''s''"
    by (auto simp: lower_def)
  from l have a: "\<not> isspace a \<and> \<not> isdigit a \<and> a \<noteq> CHR ''-'' \<and> a \<noteq> CHR ''+''"
    and b: "b \<noteq> CHR ''-''" and c: "\<not> isspace c \<and> c \<noteq> CHR ''-''"
    using lower_yes_chars [of a] lower_yes_chars [of b] lower_yes_chars [of c] by simp_all
  from a c have "\<not> int_isspace a" "\<not> int_isspace c"
    using int_isspace_isspace by blast+
  then have s: "int_strip t = t"
    by (simp add: int_strip_def t)
  have "py_int t = None"
    using a by (simp add: py_int_def s) (simp add: t parse_unsigned_def)
  moreover have "CHR ''-'' \<notin> set t"
    using a b c by (auto simp: t)
  ultimately show ?thesis
    by (simp add: parse_page_range_def)
qed

subsection \<open>Evaluating the exponent search\<close>

lemma ilog2_numeral [simp]:
  "ilog2 (numeral k) x =
     (if x \<ge> 2 then ilog2 (pred_numeral k) (x / 2) + 1
      else if x < 1 then ilog2 (pred_numeral k) (x * 2) - 1
      else 0)"
  by (simp add: numeral_eq_Suc)

subsection \<open>The page loop copies the pages it is given\<close>

lemma add_pages_in_range:
  assumes "\<forall>k \<in> set idxs. 0 \<le> k \<and> k < int (length pages) \<and> \<not> copy_raises k"
  shows "fst (add_pages pages copy_raises tot interval raises i idxs writer w)
           = Inr (writer @ map (\<lambda>k. pages ! nat k) idxs)"
  using assms
proof (induction idxs arbitrary: i writer w)
  case Nil
  then show ?case by simp
next
  case (Cons k ks)
  then have "pages_get pages k = Some (pages ! nat k)" and "\<not> copy_raises k"
    by (simp_all add: pages_get_def Let_def)
  with Cons show ?case by simp
qed

lemma map_upto_nth:
  assumes "0 \<le> a" "b < int (length xs)"
  shows "map (\<lambda>k. xs ! nat k) [a..b] = take (nat (b - a + 1)) (drop (nat a) xs)"
proof (rule nth_equalityI)
  show "length (map (\<lambda>k. xs ! nat k) [a..b]) = length (take (nat (b - a + 1)) (drop (nat a) xs))"
    using assms by auto
next
  fix i assume "i < length (map (\<lambda>k. xs ! nat k) [a..b])"
  then have i: "int i < b - a + 1" by auto
  then have "[a..b] ! i = a + int i" by simp
  with i assms show "map (\<lambda>k. xs ! nat k) [a..b] ! i = take (nat (b - a + 1)) (drop (nat a) xs) ! i"
    by (simp add: nat_add_distrib)
qed

subsection \<open>What the handlers do to the session\<close>

lemma session_emit [simp]: "session (emit e w) = session w"
  by (simp add: emit_def)

lemma files_emit [simp]: "files (emit e w) = files w"
  by (simp add: emit_def)

lemma session_add_pages:
  "add_pages pages copy_raises tot interval raises i idxs writer w = (r, w')
     \<Longrightarrow> session w' = session w"
  by (induction idxs arbitrary: i writer w) (auto split: option.splits if_splits)

lemma session_extract_pages:
  "session (world_of (extract_pages env input_pdf_path start_page end_page w)) = session w"
  by (auto simp: extract_pages_def Let_def
      split: option.splits content.splits prod.splits sum.splits dest!: session_add_pages)

lemma session_extracted:
  "extract_pages env input_pdf_path start_page end_page w = Extracted w' \<Longrightarrow> session w' = session w"
  "extract_pages env input_pdf_path start_page end_page w = PageFailed w' \<Longrightarrow> session w' = session w"
  "extract_pages env input_pdf_path start_page end_page w = Threw w' \<Longrightarrow> session w' = session w"
  using session_extract_pages [of env input_pdf_path start_page end_page w] by simp_all

lemma session_finish: "finish env input_pdf_path w = (st, w') \<Longrightarrow> session w' = session w"
  by (auto simp: finish_def Let_def split: option.splits)

lemma session_processing_failed: "processing_failed env w = (st, w') \<Longrightarrow> session w' = session w"
  by (auto simp: processing_failed_def Let_def split: option.splits)

lemma session_deliver_Inl:
  "deliver env input_pdf_path start_page end_page w = Inl w' \<Longrightarrow> session w' = session w"
  by (auto simp: deliver_def Let_def split: option.splits if_splits)

lemma session_deliver_Inr:
  "deliver env input_pdf_path start_page end_page w = Inr (st, w') \<Longrightarrow> session w' = session w"
  by (auto simp: deliver_def Let_def split: option.splits if_splits dest!: session_finish)

lemma read_page_range_Inl:
  "read_page_range input w = Inl w' \<Longrightarrow> session w' = session w"
  by (auto simp: read_page_range_def Let_def split: option.splits if_splits prod.splits)

text \<open>
  A range that \<open>read_page_range\<close> lets through was parsed and is within the bounds,
  unless it was the pending range of the session.
\<close>

lemma read_page_range_Inr:
  assumes "read_page_range input w = Inr ((start_page, end_page), w')"
  shows "(session w' = session w
          \<and> parse_page_range (strip input) = Some (start_page, end_page)
          \<and> 1 \<le> start_page \<and> start_page \<le> end_page
          \<and> end_page \<le> (case num_pages (session w) of None \<Rightarrow> 0 | Some k \<Rightarrow> k))
         \<or> (session w' = (session w)\<lparr>pending_range := None\<rparr>
            \<and> pending_range (session w) = Some (start_page, end_page))"
  using assms
  by (auto simp: read_page_range_def Let_def split: option.splits if_splits prod.splits)

lemma session_process_page_range:
  "made_no_pending (session w) (session (snd (process_page_range env input w)))"
proof (cases "read_page_range input w")
  case (Inl w')
  then show ?thesis
    by (simp add: process_page_range_def made_no_pending_def read_page_range_Inl)
next
  case (Inr r)
  then obtain start_page end_page w'
    where r: "read_page_range input w = Inr ((start_page, end_page), w')"
    by (cases r) auto
  from read_page_range_Inr [OF r] have k: "made_no_pending (session w) (session w')"
    by (auto simp: made_no_pending_def)
  show ?thesis
    using r k
    by (auto simp: process_page_range_def Let_def
        split: option.splits extraction.splits sum.splits prod.splits
        dest!: session_processing_failed session_deliver_Inl session_deliver_Inr session_extracted)
qed

lemma pending_start: "session (snd (start via w)) = session w"
  by (simp add: start_def split: origin.splits)

lemma pending_cancel: "session (snd (cancel w)) = session w"
  by (simp add: cancel_def)

lemma pending_list_local_pdfs: "session (snd (list_local_pdfs stored via w)) = session w"
  by (simp add: list_local_pdfs_def Let_def split: origin.splits)

lemma pending_upload_failed: "session (snd (upload_failed p w)) = session w"
  by (simp add: upload_failed_def Let_def split: option.splits)

lemma pending_handle_pdf:
  "pending_range (session (snd (handle_pdf user_id transfer document w))) = pending_range (session w)"
  by (simp add: handle_pdf_def Let_def pending_upload_failed
      split: transfer.splits option.splits content.splits)

lemma pending_handle_url:
  "pending_range (session (snd (handle_url up head input w))) = pending_range (session w)"
  by (simp add: handle_url_def Let_def split: head_response.splits option.splits)

lemma session_progress_update [simp]: "session (progress_update c d n w) = session w"
  by (simp add: progress_update_def)

lemma files_progress_update [simp]: "files (progress_update c d n w) = files w"
  by (simp add: progress_update_def)

lemma session_download_chunks:
  "download_chunks total_size start_time chunks downloaded last_update_time w = Inl w'
     \<Longrightarrow> session w' = session w"
  "download_chunks total_size start_time chunks downloaded last_update_time w = Inr w'
     \<Longrightarrow> session w' = session w"
  by (induction chunks arbitrary: downloaded last_update_time w)
     (auto simp: Let_def split: if_splits option.splits)

lemma pending_confirm_download:
  "pending_range (session (snd (confirm_download response w))) = pending_range (session w)"
  by (auto simp: confirm_download_def download_failed_def Let_def
      split: get_response.splits option.splits content.splits sum.splits
      dest!: session_download_chunks)

lemma session_analysis_failed: "session (snd (analysis_failed stored w)) = session w"
  by (simp add: analysis_failed_def pending_list_local_pdfs)

lemma pending_select_pdf:
  "pending_range (session (snd (select_pdf stored name w))) = pending_range (session w)"
  by (simp add: select_pdf_def Let_def session_analysis_failed
      split: option.splits content.splits)

lemma pending_button_handler:
  "pending_range (session (snd (button_handler outside data w))) = pending_range (session w)"
  by (simp add: button_handler_def Let_def pending_list_local_pdfs pending_start
      pending_select_pdf pending_confirm_download)

lemma session_list_stored_pdfs: "session (list_stored_pdfs stored w) = session w"
  by (simp add: list_stored_pdfs_def)

lemma session_remove_all: "session (snd (remove_all stored n w)) = session w"
  by (induction stored arbitrary: n w) (simp_all split: option.splits)

lemma session_clear_stored_pdfs: "session (clear_stored_pdfs stored args w) = session w"
  using session_remove_all [of stored 0 w]
  by (auto simp: clear_stored_pdfs_def split: list.splits prod.splits)

lemma session_error_handler: "session (error_handler w) = session w"
  by (simp add: error_handler_def)

lemma made_no_pending_refl: "made_no_pending s s"
  by (simp add: made_no_pending_def)

lemma made_no_pending_eq: "pending_range t = pending_range s \<Longrightarrow> made_no_pending s t"
  by (simp add: made_no_pending_def)

lemma made_no_pending_trans:
  "made_no_pending s t \<Longrightarrow> made_no_pending t u \<Longrightarrow> made_no_pending s u"
  by (auto simp: made_no_pending_def)

lemma world_returned: "world (returned r) = snd r"
  by (simp add: returned_def)

lemma pending_settled:
  assumes "made_no_pending (session (world b)) (session (snd r))"
  shows "made_no_pending (session (world b)) (session (world (settled b r)))"
  using assms
  by (simp add: settled_def world_returned session_error_handler split: result.splits)

text \<open>No handler writes the key: after any update it is absent or as it was.\<close>

lemma pending_dispatch:
  "made_no_pending (session (world b)) (session (world (dispatch outside u b)))"
proof (cases u)
  case (TextMessage input)
  have "made_no_pending (session (world b))
          (session (snd (handle_url (urlparse_path_of outside) (head_answer outside) input (world b))))"
    by (rule made_no_pending_eq) (rule pending_handle_url)
  then show ?thesis
    using TextMessage
    by (simp add: dispatch_def Let_def made_no_pending_refl pending_settled
        session_process_page_range)
qed (simp_all add: dispatch_def Let_def made_no_pending_refl made_no_pending_eq world_returned
      pending_start pending_cancel pending_button_handler pending_handle_pdf
      session_list_stored_pdfs session_clear_stored_pdfs)

lemma pending_run:
  "made_no_pending (session (world b)) (session (world (run steps b)))"
proof (induction steps arbitrary: b)
  case Nil
  then show ?case by (simp add: made_no_pending_refl)
next
  case (Cons step steps)
  obtain outside u where step: "step = (outside, u)" by (cases step)
  have "made_no_pending (session (world b)) (session (world (dispatch outside u b)))"
    by (rule pending_dispatch)
  moreover have "made_no_pending (session (world (dispatch outside u b)))
                   (session (world (run steps (dispatch outside u b))))"
    by (rule Cons.IH)
  ultimately show ?case
    unfolding step by (simp add: made_no_pending_trans)
qed

subsection \<open>The registry entry of a token is its own\<close>

lemma run_ops_other:
  assumes "\<forall>x \<in> set ops. op_token x \<noteq> token"
  shows "run_ops ops reg token = reg token"
  using assms unfolding run_ops_def
proof (induction ops arbitrary: reg)
  case Nil
  then show ?case by simp
next
  case (Cons x xs)
  then have "run_op x reg token = reg token"
    by (cases x) (auto simp: generate_download_token_def timer_pop_def)
  with Cons show ?case by simp
qed

subsection \<open>Removing the temporary file\<close>

lemma finish_removes:
  assumes "files w (temp_name env) = Some out"
  shows "finish env input_pdf_path w =
    (UPLOAD_PDF, emit (reply_text (NextMenu (''select_pdf:'' @ basename input_pdf_path)))
       (w\<lparr>files := (files w)(temp_name env := None)\<rparr>))"
  using assms by (simp add: finish_def os_remove_def)

subsection \<open>Paths of the sample inputs\<close>

lemma stored_a: "path_join PDF_STORAGE_DIR (basename ''a.pdf'') = ''stored_pdfs/a.pdf''"
  by code_simp


lemma stored_big: "path_join PDF_STORAGE_DIR (basename ''big.pdf'') = ''stored_pdfs/big.pdf''"
  by code_simp

text \<open>
  C1. For a source PDF with pages \<open>pages\<close> and a range with
  \<open>1 \<le> start_page \<le> end_page \<le> length pages\<close>, the extraction of
  \<open>process_page_range\<close> (lines 572 to 610) ends with the output file written: it is a
  PDF of \<open>end_page - start_page + 1\<close> pages, and its page \<open>i\<close> (from 0) is page
  \<open>start_page - 1 + i\<close> (from 0) of the source. The name of the temporary file is fresh,
  so it is not the path of the source, and the source is a PDF whose pages in the range
  \<open>add_page\<close> copies without raising.
\<close>

theorem extracted_pages:
  assumes "files w input_pdf_path = Some (Pdf pages)"
    and "temp_name env \<noteq> input_pdf_path"
    and "1 \<le> start_page" and "start_page \<le> end_page" and "end_page \<le> int (length pages)"
    and "\<forall>k \<in> {start_page - 1 .. end_page - 1}. \<not> page_copy_raises env k"
  shows "\<exists>w' out. extract_pages env input_pdf_path start_page end_page w = Extracted w'
           \<and> files w' (temp_name env) = Some (Pdf out)
           \<and> int (length out) = end_page - start_page + 1
           \<and> (\<forall>i < length out. out ! i = pages ! (nat (start_page - 1) + i))"
proof -
  define w1 where "w1 = w\<lparr>files := (files w)(temp_name env \<mapsto> NotPdf [])\<rparr>"
  define out where "out = take (nat (end_page - start_page + 1)) (drop (nat (start_page - 1)) pages)"
  define r where "r = add_pages pages (page_copy_raises env) (end_page - start_page + 1)
       (max 1 ((end_page - start_page + 1) div 10)) (progress_edit_raises env) 0
       [start_page - 1 .. end_page - 1] [] w1"
  have src: "files w1 input_pdf_path = Some (Pdf pages)"
    using assms(1,2) by (simp add: w1_def)
  have "\<forall>k \<in> set [start_page - 1 .. end_page - 1].
          0 \<le> k \<and> k < int (length pages) \<and> \<not> page_copy_raises env k"
    using assms(3,5,6) by auto
  then have "fst r = Inr ([] @ map (\<lambda>k. pages ! nat k) [start_page - 1 .. end_page - 1])"
    unfolding r_def by (rule add_pages_in_range)
  also have "map (\<lambda>k. pages ! nat k) [start_page - 1 .. end_page - 1] = out"
    unfolding out_def using map_upto_nth [of "start_page - 1" "end_page - 1" pages] assms(3,5)
    by simp
  finally have r: "add_pages pages (page_copy_raises env) (end_page - start_page + 1)
       (max 1 ((end_page - start_page + 1) div 10)) (progress_edit_raises env) 0
       [start_page - 1 .. end_page - 1] [] w1 = (Inr out, snd r)"
    by (simp add: prod_eq_iff r_def)
  define w3 where "w3 = emit (edit_text Finalizing) (snd r)"
  have "extract_pages env input_pdf_path start_page end_page w
          = Extracted (w3\<lparr>files := (files w3)(temp_name env \<mapsto> Pdf out)\<rparr>)"
    using src r by (simp add: extract_pages_def Let_def w1_def w3_def)
  moreover have "int (length out) = end_page - start_page + 1"
    using assms(3,4,5) by (simp add: out_def)
  moreover have "\<forall>i < length out. out ! i = pages ! (nat (start_page - 1) + i)"
    using assms(3,4,5) by (simp add: out_def)
  ultimately show ?thesis by auto
qed

theorem extracted_pages_witness:
  "files sample_world ''stored_pdfs/a.pdf'' = Some (Pdf [10, 20, 30, 40])
   \<and> temp_name sample_env \<noteq> ''stored_pdfs/a.pdf''
   \<and> (\<exists>w' out. extract_pages sample_env ''stored_pdfs/a.pdf'' 2 3 sample_world = Extracted w'
         \<and> files w' (temp_name sample_env) = Some (Pdf out)
         \<and> length out = 2 \<and> out ! 0 = 20 \<and> out ! 1 = 30)"
proof -
  have f: "files sample_world ''stored_pdfs/a.pdf'' = Some (Pdf [10, 20, 30, 40])"
    by (simp add: sample_world_def)
  have t: "temp_name sample_env \<noteq> ''stored_pdfs/a.pdf''"
    by (simp add: sample_env_def)
  have c: "\<forall>k \<in> {2 - 1 .. 3 - 1}. \<not> page_copy_raises sample_env k"
    by (simp add: sample_env_def)
  from extracted_pages [OF f t _ _ _ c]
  obtain w' out where e: "extract_pages sample_env ''stored_pdfs/a.pdf'' 2 3 sample_world = Extracted w'"
    and o: "files w' (temp_name sample_env) = Some (Pdf out)"
    and l: "int (length out) = 3 - 2 + 1"
    and n: "\<forall>i < length out. out ! i = [10, 20, 30, 40] ! (nat (2 - 1) + i)"
    by auto
  from l have l2: "length out = 2" by simp
  from n l2 have "out ! 0 = 20" "out ! 1 = 30" by simp_all
  with f t e o l2 show ?thesis by blast
qed

text \<open>
  C2. When the text parses to bounds with \<open>start_page > end_page\<close>, or
  \<open>start_page < 1\<close>, or \<open>end_page\<close> above the page count recorded in the session (0 when
  none is recorded), \<open>process_page_range\<close> returns \<open>GET_PAGE_RANGE\<close>. All it does is
  send the validation notice and the invalid-range prompt: the session, the files and
  the token registry stay as they were, so no extraction ran.
\<close>

theorem invalid_range_rejected:
  assumes "parse_page_range (strip text) = Some (start_page, end_page)"
    and "start_page > end_page \<or> start_page < 1
         \<or> end_page > (case num_pages (session w) of None \<Rightarrow> 0 | Some k \<Rightarrow> k)"
  shows "process_page_range env text w =
           (Returned GET_PAGE_RANGE,
            emit (edit_text (InvalidRange (case num_pages (session w) of None \<Rightarrow> 0 | Some k \<Rightarrow> k)))
              (emit (reply_text Validating) w))"
proof -
  from assms(1) have "lower (strip text) \<noteq> ''yes''"
    using yes_is_no_range [of "strip text"] by auto
  with assms show ?thesis
    by (auto simp: process_page_range_def read_page_range_def emit_def Let_def)
qed

theorem invalid_range_rejected_witness:
  "parse_page_range (strip ''5-2'') = Some (5, 2)
   \<and> process_page_range sample_env ''5-2'' sample_world =
       (Returned GET_PAGE_RANGE,
        emit (edit_text (InvalidRange 4)) (emit (reply_text Validating) sample_world))"
proof -
  have p: "parse_page_range (strip ''5-2'') = Some (5, 2)"
    by code_simp
  have n: "num_pages (session sample_world) = Some 4"
    by (simp add: sample_world_def)
  from invalid_range_rejected [OF p, of sample_world sample_env] n p show ?thesis
    by simp
qed

text \<open>
  C3, as the specification states it, fails at the instant of expiry: a request at
  \<open>time_now = expire_time\<close> for a registered token whose file exists is served, not
  answered with 404, because line 88 tests \<open>expire_time < time.time()\<close>.
\<close>

theorem download_at_expiry_counterexample:
  "1000 + FILE_EXPIRATION_TIME \<le> (87400 :: real)
   \<and> download_file sample_registry served_files 87400 ''7c1d''
       = SendFile ''%PDF-1.7'' ''a.pdf'' ''application/pdf'' True"
  by (simp add: download_file_def generate_download_token_def FILE_EXPIRATION_TIME_def
      sample_registry_def served_files_def)

text \<open>
  C3, amended. Let a token be issued by \<open>generate_download_token\<close> at time
  \<open>issued_at\<close> for \<open>path\<close> and \<open>original_filename\<close>, and let the registry go through
  any later operations on other tokens. A request at a time up to and including
  \<open>issued_at + FILE_EXPIRATION_TIME\<close>, while the file exists, is answered with exactly
  the bytes of the file, as an attachment under the original filename. The answer is
  404 when the time is after \<open>issued_at + FILE_EXPIRATION_TIME\<close>, when the file does not
  exist, when a token is not in the registry, and after the timer of the token has
  fired.
\<close>

theorem issued_token_download:
  assumes "generate_download_token token issued_at path original_filename ip reg0 = (tok, reg1)"
    and "\<forall>x \<in> set later. op_token x \<noteq> tok"
  shows "(time_now \<le> issued_at + FILE_EXPIRATION_TIME \<and> fs path = Some bytes \<longrightarrow>
            download_file (run_ops later reg1) fs time_now tok
              = SendFile bytes original_filename ''application/pdf'' True)
       \<and> (time_now > issued_at + FILE_EXPIRATION_TIME \<longrightarrow>
            download_file (run_ops later reg1) fs time_now tok = Abort404)
       \<and> (fs path = None \<longrightarrow>
            download_file (run_ops later reg1) fs time_now tok = Abort404)
       \<and> (reg2 other = None \<longrightarrow> download_file reg2 fs time_now other = Abort404)
       \<and> download_file (run_ops (later @ [TimerFires tok]) reg1) fs time_now tok = Abort404"
proof -
  from assms(1) have tok: "tok = token"
    and e: "reg1 tok = Some \<lparr>file_path = path, filename = original_filename,
              client_ip = ip, expire_time = issued_at + FILE_EXPIRATION_TIME\<rparr>"
    by (auto simp: generate_download_token_def)
  from run_ops_other [OF assms(2)] e
  have r: "run_ops later reg1 tok = Some \<lparr>file_path = path, filename = original_filename,
              client_ip = ip, expire_time = issued_at + FILE_EXPIRATION_TIME\<rparr>"
    by simp
  have p: "run_ops (later @ [TimerFires tok]) reg1 tok = None"
    by (simp add: run_ops_def timer_pop_def)
  from r p show ?thesis
    by (simp add: download_file_def)
qed

theorem issued_token_download_witness:
  "generate_download_token ''7c1d'' 1000 ''web_serve/0b5e_a.pdf'' ''a.pdf'' None Map.empty
     = (''7c1d'', sample_registry)
   \<and> download_file (run_ops sample_later sample_registry) served_files 5000 ''7c1d''
       = SendFile ''%PDF-1.7'' ''a.pdf'' ''application/pdf'' True
   \<and> download_file (run_ops sample_later sample_registry) served_files 90000 ''7c1d'' = Abort404
   \<and> download_file (run_ops sample_later sample_registry) (Map.empty :: string \<rightharpoonup> string) 5000 ''7c1d''
       = Abort404
   \<and> download_file Map.empty served_files 5000 ''7c1d'' = Abort404
   \<and> download_file (run_ops (sample_later @ [TimerFires ''7c1d'']) sample_registry)
        served_files 5000 ''7c1d'' = Abort404"
proof -
  have g: "generate_download_token ''7c1d'' 1000 ''web_serve/0b5e_a.pdf'' ''a.pdf'' None Map.empty
             = (''7c1d'', sample_registry)"
    by (simp add: sample_registry_def generate_download_token_def)
  have l: "\<forall>x \<in> set sample_later. op_token x \<noteq> ''7c1d''"
    by (simp add: sample_later_def)
  note t = issued_token_download [OF g l]
  have f: "served_files ''web_serve/0b5e_a.pdf'' = Some ''%PDF-1.7''"
    by (simp add: served_files_def)
  have a: "download_file (run_ops sample_later sample_registry) served_files 5000 ''7c1d''
       = SendFile ''%PDF-1.7'' ''a.pdf'' ''application/pdf'' True"
    using t [where time_now = 5000 and fs = served_files and bytes = "''%PDF-1.7''"] f
    by (simp add: FILE_EXPIRATION_TIME_def)
  have b: "download_file (run_ops sample_later sample_registry) served_files 90000 ''7c1d'' = Abort404"
    using t [where time_now = 90000 and fs = served_files]
    by (simp add: FILE_EXPIRATION_TIME_def)
  have c: "download_file (run_ops sample_later sample_registry) (Map.empty :: string \<rightharpoonup> string)
             5000 ''7c1d'' = Abort404"
    using t [where time_now = 5000 and fs = "Map.empty :: string \<rightharpoonup> string"]
    by simp
  have d: "download_file Map.empty served_files 5000 ''7c1d'' = Abort404"
    using t [where time_now = 5000 and fs = served_files and ?reg2.0 = Map.empty and other = "''7c1d''"]
    by simp
  have e: "download_file (run_ops (sample_later @ [TimerFires ''7c1d'']) sample_registry)
        served_files 5000 ''7c1d'' = Abort404"
    using t [where time_now = 5000 and fs = served_files]
    by simp
  from g a b c d e show ?thesis by simp
qed

text \<open>
  C4. The name taken from the Content-Disposition header is returned as it stands: for
  the header \<open>attachment; filename="notes.txt"\<close> the result is \<open>notes.txt\<close>, with no
  \<open>.pdf\<close> suffix, whatever the URL is. Only the name taken from the URL goes through
  the default of line 522 and the suffix of line 526.
\<close>

theorem header_filename_evaluation:
  "get_filename_from_url urlparse_path ''https://x/y/report.pdf''
     (Some (''attachment; filename='' @ [CHR 0x22] @ ''notes.txt'' @ [CHR 0x22])) = ''notes.txt''"
  by (simp add: get_filename_from_url_def filename_match_def)

text \<open>
  In general: a header in which the pattern matches decides the result alone, and the
  name taken from the URL is the basename of the path, \<open>document.pdf\<close> when that is
  empty, with \<open>.pdf\<close> appended unless it ends in \<open>.pdf\<close> in any case of letters.
\<close>

lemma header_filename:
  assumes "header \<noteq> []" and "filename_match header = Some group1"
  shows "get_filename_from_url urlparse_path url (Some header) = group1"
  using assms by (simp add: get_filename_from_url_def)

lemma header_filename_empty:
  "get_filename_from_url urlparse_path url (Some (''attachment; filename='' @ [CHR 0x22, CHR 0x22])) = []"
  by (simp add: get_filename_from_url_def filename_match_def)


lemma url_filename:
  "get_filename_from_url urlparse_path url None =
     (let name = basename (urlparse_path url)
      in if name = [] then ''document.pdf''
         else if endswith (lower name) ''.pdf'' then name
         else name @ ''.pdf'')"
  by (simp add: get_filename_from_url_def Let_def)

lemma url_filename_upper_case:
  "get_filename_from_url (\<lambda>url. ''/y/report.PDF'') ''https://x/y/report.PDF'' None = ''report.PDF''"
  by code_simp

text \<open>
  C5. Let the extraction have written its output \<open>out\<close> to the temporary file. When
  the size of the output is at most \<open>MAX_FILE_SIZE\<close> (50 MiB), it is sent over the
  channel as a document and no token is registered. When it is larger, the file is
  copied to the serve directory under the name \<open>{uuid}_{output name}\<close>, a token for that
  copy is registered, and the link is \<open>{PUBLIC_URL}/download/{token}\<close>; when the link
  contains \<open>localhost\<close> or \<open>127.0.0.1\<close>, the user is shown the configuration error and
  no link, otherwise the link. The path in the serve directory is not the temporary
  file.
\<close>

theorem output_delivery:
  assumes "files w (temp_name env) = Some out"
    and "web_serve_path env (output_filename input_pdf_path start_page end_page) \<noteq> temp_name env"
  shows "\<exists>w'. deliver env input_pdf_path start_page end_page w = Inr (UPLOAD_PDF, w') \<and>
     (if getsize env out \<le> MAX_FILE_SIZE then
        effects w' = effects w @
          [edit_text Sending,
           reply_document out (output_filename input_pdf_path start_page end_page) start_page end_page,
           reply_text (NextMenu (''select_pdf:'' @ basename input_pdf_path))]
        \<and> file_tokens w' = file_tokens w
      else
        files w' (web_serve_path env (output_filename input_pdf_path start_page end_page)) = Some out
        \<and> file_tokens w' (uuid_token env) =
            Some \<lparr>file_path = web_serve_path env (output_filename input_pdf_path start_page end_page),
                  filename = output_filename input_pdf_path start_page end_page,
                  client_ip = None, expire_time = clock env + FILE_EXPIRATION_TIME\<rparr>
        \<and> (if contains ''localhost'' (download_url_of env (uuid_token env))
               \<or> contains ''127.0.0.1'' (download_url_of env (uuid_token env))
            then effects w' = effects w @
                   [edit_text (TooLarge (getsize env out div (1024 * 1024))),
                    logger_info (GeneratedDownloadURL (download_url_of env (uuid_token env))),
                    logger_error (InvalidURLDetected (download_url_of env (uuid_token env))),
                    edit_text NotConfigured]
            else effects w' = effects w @
                   [edit_text (TooLarge (getsize env out div (1024 * 1024))),
                    logger_info (GeneratedDownloadURL (download_url_of env (uuid_token env))),
                    reply_text (LinkReady (download_url_of env (uuid_token env)) start_page end_page
                                  (getsize env out div (1024 * 1024))),
                    reply_text (NextMenu (''select_pdf:'' @ basename input_pdf_path))]))"
proof (cases "getsize env out \<le> MAX_FILE_SIZE")
  case True
  with assms(1) show ?thesis
    by (simp add: deliver_def Let_def finish_removes emit_def)
next
  case False
  note big = this
  show ?thesis
  proof (cases "contains ''localhost'' (download_url_of env (uuid_token env))
               \<or> contains ''127.0.0.1'' (download_url_of env (uuid_token env))")
    case True
    with big assms show ?thesis
      by (simp add: deliver_def Let_def emit_def generate_download_token_def)
  next
    case False
    with big assms show ?thesis
      by (simp add: deliver_def Let_def emit_def generate_download_token_def finish_removes)
  qed
qed

theorem output_delivery_witness:
  "files extracted_world (temp_name big_env) = Some (Pdf [20, 30])
   \<and> (\<exists>w'. deliver big_env ''stored_pdfs/a.pdf'' 2 3 extracted_world = Inr (UPLOAD_PDF, w')
         \<and> files w' ''web_serve/0b5e_a_pages_2_to_3.pdf'' = Some (Pdf [20, 30])
         \<and> file_tokens w' ''7c1d'' =
             Some \<lparr>file_path = ''web_serve/0b5e_a_pages_2_to_3.pdf'', filename = ''a_pages_2_to_3.pdf'',
                   client_ip = None, expire_time = 87400\<rparr>
         \<and> effects w' =
             [edit_text (TooLarge 57),
              logger_info (GeneratedDownloadURL ''http://203.0.113.7:8000/download/7c1d''),
              reply_text (LinkReady ''http://203.0.113.7:8000/download/7c1d'' 2 3 57),
              reply_text (NextMenu ''select_pdf:a.pdf'')])"
proof -
  have f: "files extracted_world (temp_name big_env) = Some (Pdf [20, 30])"
    by (simp add: extracted_world_def big_env_def sample_env_def)
  have n: "output_filename ''stored_pdfs/a.pdf'' 2 3 = ''a_pages_2_to_3.pdf''"
    by code_simp
  have p: "web_serve_path big_env ''a_pages_2_to_3.pdf'' = ''web_serve/0b5e_a_pages_2_to_3.pdf''"
    by code_simp
  have t: "temp_name big_env = ''/tmp/tmpk3x9.pdf''" "uuid_token big_env = ''7c1d''"
    "clock big_env = 1000" "getsize big_env (Pdf [20, 30]) = 60000000"
    by (simp_all add: big_env_def sample_env_def)
  have u: "download_url_of big_env ''7c1d'' = ''http://203.0.113.7:8000/download/7c1d''"
    by code_simp
  have c: "\<not> contains ''localhost'' ''http://203.0.113.7:8000/download/7c1d''"
    "\<not> contains ''127.0.0.1'' ''http://203.0.113.7:8000/download/7c1d''"
    by code_simp+
  have b: "basename ''stored_pdfs/a.pdf'' = ''a.pdf''"
    by code_simp
  have e: "effects extracted_world = []"
    by (simp add: extracted_world_def sample_world_def)
  have d: "web_serve_path big_env (output_filename ''stored_pdfs/a.pdf'' 2 3) \<noteq> temp_name big_env"
    by (simp add: n p t)
  from output_delivery [OF f d] f show ?thesis
    by (simp add: n p t u c b e MAX_FILE_SIZE_def FILE_EXPIRATION_TIME_def)
qed

text \<open>
  C6. The comment of line 582 says that progress is updated at most 10 times. For the
  range \<open>1-19\<close> on a document of nineteen pages the interval is \<open>max(1, 19 // 10) = 1\<close>,
  and \<open>process_page_range\<close> makes 18 progress reports.
\<close>

theorem progress_reports_evaluation:
  "progress_reports (snd (process_page_range sample_env ''1-19'' long_world)) = 18"
  by code_simp

text \<open>A progress edit that raises does not change what the loop returns.\<close>

lemma add_pages_swallows:
  "fst (add_pages pages copy_raises tot interval raises i idxs writer w)
     = fst (add_pages pages copy_raises tot interval (\<lambda>i. False) i idxs writer w')"
  by (induction idxs arbitrary: i writer w w') (auto split: option.splits)

text \<open>
  C7. The comment of line 309 says that the progress message is updated every 5 % or at
  least every 10 seconds. In a download of 100 MiB whose chunks of one MiB are written 11
  and 22 seconds after the start, the first chunk brings an update (more than 10
  seconds since the start) and the second brings none, although 11 seconds have passed
  since the last update: line 315 stores the number of bytes in \<open>last_update_time\<close>,
  and line 313 subtracts it from the seconds since the start, \<open>22 - 1048576\<close>.
\<close>

theorem download_progress_evaluation:
  "effects (snd (confirm_download slow_response url_world)) =
     [edit_text StartingDownload, edit_text (Downloading 1048576 104857600),
      edit_text DownloadComplete, edit_text (DownloadedPdf 4)]"
proof -
  have n: "py_int ''104857600'' = Some 104857600"
    by (simp add: py_int_def int_strip_def int_isspace_def parse_unsigned_def isdigit_def
        digit_val_def)
  have first: "needs_update 104857600 0 11 1048576 0 = Some True"
    by (simp add: needs_update_def overflows_def fl_def fl_pos_def round_even_def pow2_def Let_def)
  have second: "needs_update 104857600 0 22 2097152 1048576 = Some False"
    by (simp add: needs_update_def overflows_def fl_def fl_pos_def round_even_def pow2_def Let_def)
  have shown: "progress_update \<lparr>chunk_len = 1048576, chunk_time = 11, chunk_edit_raises = False\<rparr>
                 1048576 104857600 w = emit (edit_text (Downloading 1048576 104857600)) w"
    for w :: "nat world"
    by (simp add: progress_update_def overflows_def pow2_def)
  have loop: "download_chunks 104857600 0 slow_chunks 0 0 w
                = Inr (emit (edit_text (Downloading 1048576 104857600)) w)" for w :: "nat world"
    by (simp add: slow_chunks_def Let_def first second shown)
  have u: "truthy (download_url (session url_world)) = Some ''https://example.org/big.pdf''"
    by (simp add: url_world_def truthy_def)
  have f: "file_name (session url_world) = Some ''big.pdf''"
    by (simp add: url_world_def)
  have e: "effects url_world = []"
    by (simp add: url_world_def empty_world_def)
  have d: "basename ''big.pdf'' = ''big.pdf''"
    by code_simp
  have k: "\<not> names_directory ''big.pdf''"
    by (simp add: names_directory_def)
  have j: "path_join PDF_STORAGE_DIR ''big.pdf'' = ''stored_pdfs/big.pdf''"
    using stored_big by (simp add: d)
  show ?thesis
    by (simp add: confirm_download_def slow_response_def u f e d k j n loop emit_def Let_def)
qed

text \<open>
  The rounding of doubles decides the test of line 312: after an update at 1500 of 2000
  bytes, the chunk that brings the download to 1600 bytes has advanced the fraction by
  one twentieth, and \<open>0.8 - 0.75\<close> in doubles is above \<open>0.05\<close>.
\<close>

lemma one_twentieth_in_doubles: "needs_update 2000 0 1 1600 1500 = Some True"
  by (simp add: needs_update_def overflows_def fl_def fl_pos_def round_even_def pow2_def Let_def)

text \<open>
  Without a content-length header \<open>total_size\<close> is 0 and the test of line 311 is
  false after every chunk: no progress update is made, however much time passes.
\<close>

lemma no_update_without_content_length:
  "total_size \<le> 0 \<Longrightarrow> download_chunks total_size start_time chunks d l w = Inr w"
  by (induction chunks arbitrary: d l) (simp_all add: Let_def needs_update_def)

text \<open>A progress edit that raises does not end the loop.\<close>

lemma download_chunks_swallows:
  "isl (download_chunks total_size start_time (map (\<lambda>c. c\<lparr>chunk_edit_raises := r c\<rparr>) chunks) d l w)
     = isl (download_chunks total_size start_time chunks d l w')"
  by (induction chunks arbitrary: d l w w') (simp_all add: Let_def split: option.splits)




text \<open>
  C9. Whatever updates the application receives and whatever the outside does, starting
  with an empty session, the key \<open>pending_range\<close> is never in the session. So every range
  that \<open>read_page_range\<close> passes on to the extraction was parsed from the text and
  satisfies \<open>1 \<le> start_page \<le> end_page \<le> num_pages\<close>: the branch of line 539 is never
  taken.
\<close>

theorem pending_range_never_set:
  "pending_range (session (world (run steps (initial_bot fs)))) = None
   \<and> (\<forall>input start_page end_page w'.
         read_page_range input (world (run steps (initial_bot fs))) = Inr ((start_page, end_page), w')
         \<longrightarrow> parse_page_range (strip input) = Some (start_page, end_page)
             \<and> 1 \<le> start_page \<and> start_page \<le> end_page
             \<and> end_page \<le> (case num_pages (session (world (run steps (initial_bot fs)))) of
                               None \<Rightarrow> 0 | Some k \<Rightarrow> k))"
proof -
  have "made_no_pending (session (world (initial_bot fs)))
          (session (world (run steps (initial_bot fs))))"
    by (rule pending_run)
  then have n: "pending_range (session (world (run steps (initial_bot fs)))) = None"
    by (simp add: made_no_pending_def initial_bot_def empty_user_data_def)
  show ?thesis
  proof (intro conjI allI impI)
    show "pending_range (session (world (run steps (initial_bot fs)))) = None" by (rule n)
  next
    fix input start_page end_page w'
    assume "read_page_range input (world (run steps (initial_bot fs))) = Inr ((start_page, end_page), w')"
    from read_page_range_Inr [OF this] n
    have v: "parse_page_range (strip input) = Some (start_page, end_page)
          \<and> 1 \<le> start_page \<and> start_page \<le> end_page
          \<and> end_page \<le> (case num_pages (session (world (run steps (initial_bot fs)))) of
                               None \<Rightarrow> 0 | Some k \<Rightarrow> k)"
      by auto
    from v show "parse_page_range (strip input) = Some (start_page, end_page)" by simp
    from v show "1 \<le> start_page" by simp
    from v show "start_page \<le> end_page" by simp
    from v show "end_page \<le> (case num_pages (session (world (run steps (initial_bot fs)))) of
                               None \<Rightarrow> 0 | Some k \<Rightarrow> k)" by simp
  qed
qed

theorem pending_range_never_set_witness:
  "read_page_range ''2-3'' (world (run sample_steps (initial_bot Map.empty))) =
     Inr ((2, 3), emit (reply_text Validating) (world (run sample_steps (initial_bot Map.empty))))
   \<and> pending_range (session (world (run sample_steps (initial_bot Map.empty)))) = None
   \<and> parse_page_range (strip ''2-3'') = Some (2, 3)
   \<and> num_pages (session (world (run sample_steps (initial_bot Map.empty)))) = Some 4"
proof -
  have s: "session (world (run sample_steps (initial_bot Map.empty))) =
      \<lparr>pdf_path = Some ''stored_pdfs/a.pdf'', num_pages = Some 4, download_url = None,
       file_name = None, pending_range = None\<rparr>"
    by (simp add: sample_steps_def dispatch_def returned_def start_def initial_bot_def
        handle_pdf_def sample_upload_def sample_outside_def MAX_FILE_SIZE_def Let_def emit_def
        upload_name_def stored_a empty_user_data_def)
  have p: "parse_page_range (strip ''2-3'') = Some (2, 3)"
    by code_simp
  have y: "lower (strip ''2-3'') \<noteq> ''yes''"
    by code_simp
  have h: "read_page_range ''2-3'' (world (run sample_steps (initial_bot Map.empty))) =
      Inr ((2, 3), emit (reply_text Validating) (world (run sample_steps (initial_bot Map.empty))))"
    by (simp add: read_page_range_def Let_def s p y emit_def)
  from pending_range_never_set [of sample_steps Map.empty] h s show ?thesis
    by simp
qed

text \<open>
  C10. When the session records no page count, every text that parses to bounds with
  \<open>start_page \<ge> 1\<close> is rejected: \<open>process_page_range\<close> returns \<open>GET_PAGE_RANGE\<close>
  after the validation notice and the invalid-range prompt (which names 0 pages), and
  nothing else happened, so the extraction was not reached.
\<close>

theorem no_page_count_rejected:
  assumes "num_pages (session w) = None"
    and "parse_page_range (strip text) = Some (start_page, end_page)"
    and "start_page \<ge> 1"
  shows "process_page_range env text w =
           (Returned GET_PAGE_RANGE,
            emit (edit_text (InvalidRange 0)) (emit (reply_text Validating) w))"
proof -
  from assms(2) have "lower (strip text) \<noteq> ''yes''"
    using yes_is_no_range [of "strip text"] by auto
  moreover from assms(3) have "end_page > 0 \<or> start_page > end_page" by arith
  ultimately show ?thesis using assms(1,2)
    by (auto simp: process_page_range_def read_page_range_def emit_def Let_def)
qed

theorem no_page_count_rejected_witness:
  "num_pages (session (sample_world\<lparr>session := empty_user_data\<rparr>)) = None
   \<and> parse_page_range (strip ''1-3'') = Some (1, 3)
   \<and> process_page_range sample_env ''1-3'' (sample_world\<lparr>session := empty_user_data\<rparr>) =
       (Returned GET_PAGE_RANGE,
        emit (edit_text (InvalidRange 0))
          (emit (reply_text Validating) (sample_world\<lparr>session := empty_user_data\<rparr>)))"
proof -
  have n: "num_pages (session (sample_world\<lparr>session := empty_user_data\<rparr>)) = None"
    by (simp add: empty_user_data_def)
  have p: "parse_page_range (strip ''1-3'') = Some (1, 3)"
    by code_simp
  from no_page_count_rejected [OF n p, of sample_env] n p show ?thesis
    by simp
qed

end
